theory Spec2Isabelle
  imports Complex_Main
begin

section \<open>Python strings\<close>

text \<open>
  Guest source text, method names and messages are Python \<open>str\<close> values; they are
  modelled as \<open>string\<close>.  The helpers below are the \<open>str\<close> methods the
  repository calls.  Case folding and whitespace are the ASCII ones.
\<close>

definition newline :: char where
  "newline = CHR 0x0A"

definition dquote :: char where
  "dquote = CHR 0x22"

text \<open>\<^verbatim>\<open>s.startswith(p)\<close>\<close>

fun startswith :: "string \<Rightarrow> string \<Rightarrow> bool" where
  "startswith s [] = True"
| "startswith [] (p # ps) = False"
| "startswith (c # cs) (p # ps) = (c = p \<and> startswith cs ps)"

text \<open>\<^verbatim>\<open>sub in s\<close>\<close>

fun str_contains :: "string \<Rightarrow> string \<Rightarrow> bool" where
  "str_contains [] sub = (sub = [])"
| "str_contains (c # cs) sub = (startswith (c # cs) sub \<or> str_contains cs sub)"

text \<open>\<^verbatim>\<open>s.endswith(p)\<close>\<close>

definition endswith :: "string \<Rightarrow> string \<Rightarrow> bool" where
  "endswith s p = startswith (rev s) (rev p)"

definition is_space :: "char \<Rightarrow> bool" where
  "is_space c = (c \<in> set [CHR '' '', CHR 0x09, CHR 0x0A, CHR 0x0B, CHR 0x0C, CHR 0x0D,
                           CHR 0x1C, CHR 0x1D, CHR 0x1E, CHR 0x1F])"

text \<open>\<^verbatim>\<open>s.strip()\<close>\<close>

definition strip :: "string \<Rightarrow> string" where
  "strip s = rev (dropWhile is_space (rev (dropWhile is_space s)))"

text \<open>\<^verbatim>\<open>s.rstrip('\n')\<close>\<close>

definition rstrip_newline :: "string \<Rightarrow> string" where
  "rstrip_newline s = rev (dropWhile (\<lambda>c. c = newline) (rev s))"

text \<open>\<^verbatim>\<open>s.lower()\<close>, on the ASCII letters.\<close>

definition lower_char :: "char \<Rightarrow> char" where
  "lower_char c =
     (case c of Char b0 b1 b2 b3 b4 b5 b6 b7 \<Rightarrow>
        (let n = (of_char c :: nat)
         in if 65 \<le> n \<and> n \<le> 90 then Char b0 b1 b2 b3 b4 True b6 b7 else c))"

definition lower :: "string \<Rightarrow> string" where
  "lower s = map lower_char s"

text \<open>
  \<^verbatim>\<open>s.split(sep)\<close> for a non-empty separator: the pieces between the occurrences of
  \<open>sep\<close>, scanned from the left.  (Python raises \<open>ValueError\<close> on an empty
  separator; every call in the repository passes a literal, non-empty one, and the
  model then returns the string unsplit.)
\<close>

function split_from :: "string \<Rightarrow> string \<Rightarrow> string \<Rightarrow> string list" where
  "split_from sep acc [] = [rev acc]"
| "split_from sep acc (c # cs) =
     (if sep \<noteq> [] \<and> startswith (c # cs) sep
      then rev acc # split_from sep [] (drop (length sep) (c # cs))
      else split_from sep (c # acc) cs)"
  by pat_completeness auto
termination
  by (relation "measure (\<lambda>(sep, acc, s). length s)") auto

definition split :: "string \<Rightarrow> string \<Rightarrow> string list" where
  "split s sep = split_from sep [] s"

text \<open>\<^verbatim>\<open>code.split('\n')\<close>\<close>

definition split_lines :: "string \<Rightarrow> string list" where
  "split_lines code = split code [newline]"

text \<open>\<open>d[k] = v\<close> on a dictionary kept in insertion order.\<close>

fun dict_set :: "'k \<Rightarrow> 'v \<Rightarrow> ('k \<times> 'v) list \<Rightarrow> ('k \<times> 'v) list" where
  "dict_set k v [] = [(k, v)]"
| "dict_set k v ((k1, v1) # kvs) =
     (if k = k1 then (k, v) # kvs else (k1, v1) # dict_set k v kvs)"

section \<open>Execution steps and responses (\<open>schemas/playground.py\<close>)\<close>

text \<open>
  \<open>StepStatus = Literal["success", "error", "timeout", "waiting"]\<close>.
\<close>

datatype step_status = Success | Error | Timeout | Waiting

text \<open>
  The \<open>state\<close> dictionary of an \<open>ExecutionStepSchema\<close>.  The model keeps the
  three keys that the controller reads back (\<open>error\<close>, \<open>stdout\<close>,
  \<open>waiting_for_input\<close>) and what the simulators read back of \<open>step_detail\<close>:
  whether its \<open>operation\<close> is \<open>"print"\<close>, and its \<open>output\<close>.  The other keys only
  carry data for the front end.  A missing key is \<open>None\<close> (\<open>dict.get\<close>),
  \<open>waiting_for_input\<close> is its truth value, \<open>st_detail_print\<close> is
  \<open>state.get("step_detail", {}).get("operation") == "print"\<close>, and
  \<open>st_detail_output\<close> is \<open>state.get("step_detail", {}).get("output")\<close>.
\<close>

datatype stdout_value = StdoutList "string list" | StdoutStr string

record step_state =
  st_error :: "string option"
  st_stdout :: "stdout_value option"
  st_waiting_for_input :: bool
  st_detail_print :: bool
  st_detail_output :: "string option"

record execution_step =
  stepNumber :: int
  line :: int
  code :: string
  state :: step_state

record 'c execution_response =
  executionId :: string
  r_code :: string
  r_dataType :: "string option"
  steps :: "execution_step list"
  totalSteps :: nat
  status :: step_status
  errorMessage :: "string option"
  executedAt :: nat
  createdAt :: nat
  r_output :: "string option"
  complexity :: "'c option"

section \<open>\<open>ExecutionHelper\<close> (\<open>utils/execution_helpers.py\<close>)\<close>

definition create_error_response ::
  "string \<Rightarrow> string \<Rightarrow> string option \<Rightarrow> string \<Rightarrow> nat \<Rightarrow> execution_step list option
     \<Rightarrow> 'c execution_response" where
  "create_error_response exec_id code0 data_type error_message created_at steps0 =
     (let steps1 = (case steps0 of None \<Rightarrow> [] | Some ss \<Rightarrow> ss)
      in \<lparr> executionId = exec_id, r_code = code0, r_dataType = data_type,
           steps = steps1, totalSteps = length steps1, status = Error,
           errorMessage = Some error_message, executedAt = created_at,
           createdAt = created_at, r_output = None, complexity = None \<rparr>)"

section \<open>\<open>ExecuteController\<close> (\<open>api/controllers/playground.py\<close>)\<close>

text \<open>Exceptions carry their message (\<open>str(e)\<close>).\<close>

datatype py_exception =
    AttributeError string
  | ValueError string
  | NotImplementedError string
  | TimeoutError string
  | IndexError string
  | TypeError string
  | PyException string

fun exception_str :: "py_exception \<Rightarrow> string" where
  "exception_str (AttributeError m) = m"
| "exception_str (ValueError m) = m"
| "exception_str (NotImplementedError m) = m"
| "exception_str (TimeoutError m) = m"
| "exception_str (IndexError m) = m"
| "exception_str (TypeError m) = m"
| "exception_str (PyException m) = m"

fun is_TimeoutError :: "py_exception \<Rightarrow> bool" where
  "is_TimeoutError (TimeoutError m) = True"
| "is_TimeoutError e = False"

text \<open>
  A controller object is its instance dictionary: the attributes that have been
  assigned.  Reading an attribute that was never assigned raises
  \<open>AttributeError\<close> (the class defines no class attribute and no
  \<open>__getattr__\<close>).
\<close>

datatype attribute =
    SimulatorFactoryObj
  | DetectorObj "string \<Rightarrow> string option"

type_synonym py_object = "string \<rightharpoonup> attribute"

text \<open>
  \<^verbatim>\<open>
  def __init__(self):
      self.simulator_factory = SimulatorFactory()
  \<close>
\<close>

definition ExecuteController_init :: py_object where
  "ExecuteController_init = [''simulator_factory'' \<mapsto> SimulatorFactoryObj]"

definition getattr :: "py_object \<Rightarrow> string \<Rightarrow> py_exception + attribute" where
  "getattr obj name =
     (case obj name of
        None \<Rightarrow> Inl (AttributeError (''object has no attribute '' @ name))
      | Some v \<Rightarrow> Inr v)"

text \<open>\<open>detector.detect_from_code(code)\<close>; an object of another class has no such method.\<close>

fun detect_from_code :: "attribute \<Rightarrow> string \<Rightarrow> py_exception + string option" where
  "detect_from_code (DetectorObj f) code0 = Inr (f code0)"
| "detect_from_code SimulatorFactoryObj code0 =
     Inl (AttributeError ''object has no attribute detect_from_code'')"

record request =
  req_code :: string
  req_dataType :: "string option"
  req_inputValues :: "string list option"
  req_autoDetect :: "bool option"

text \<open>The keys of \<open>SimulatorFactory._simulators\<close>.\<close>

definition simulator_keys :: "string list" where
  "simulator_keys = [''stack'', ''singlylinkedlist'', ''doublylinkedlist'',
     ''binarysearchtree'', ''graph'', ''undirectedgraph'', ''directedgraph'', ''queue'']"

definition is_supported :: "string \<Rightarrow> bool" where
  "is_supported data_type = (lower data_type \<in> set simulator_keys)"

text \<open>
  What \<open>asyncio.wait_for(self._execute_with_simulator(...), timeout)\<close> does: the
  simulator returns its steps, or the wait runs out of time, or the simulator raises.
\<close>

datatype sim_outcome =
    Returned "execution_step list"
  | WaitTimedOut
  | Raised py_exception

text \<open>
  \<open>_execute_with_timeout\<close>: a \<open>TimeoutError\<close> (from the wait or from inside) is
  re-raised as \<open>TimeoutError("Code execution exceeded ... seconds")\<close>, anything else
  propagates.
\<close>

definition execute_with_timeout :: "sim_outcome \<Rightarrow> py_exception + execution_step list" where
  "execute_with_timeout outcome =
     (case outcome of
        Returned ss \<Rightarrow> Inr ss
      | WaitTimedOut \<Rightarrow> Inl (TimeoutError ''Code execution exceeded timeout'')
      | Raised e \<Rightarrow>
          (if is_TimeoutError e then Inl (TimeoutError ''Code execution exceeded timeout'')
           else Inl e))"

text \<open>Truth value of \<open>error and isinstance(error, str) and error.strip()\<close>.\<close>

definition step_has_error :: "execution_step \<Rightarrow> bool" where
  "step_has_error s =
     (case st_error (state s) of None \<Rightarrow> False | Some e \<Rightarrow> e \<noteq> [] \<and> strip e \<noteq> [])"

text \<open>The first step carrying an error, as the \<open>for ... break\<close> loop finds it.\<close>

fun find_error_message :: "execution_step list \<Rightarrow> string option" where
  "find_error_message [] = None"
| "find_error_message (s # ss) =
     (if step_has_error s then st_error (state s) else find_error_message ss)"

text \<open>\<^verbatim>\<open>sep.join(xs)\<close>\<close>

fun join :: "string \<Rightarrow> string list \<Rightarrow> string" where
  "join sep [] = []"
| "join sep [x] = x"
| "join sep (x # y # ys) = x @ sep @ join sep (y # ys)"

text \<open>
  The \<open>output\<close> of the response: the \<open>stdout\<close> of the last step that has a truthy
  one (steps are searched in reverse).
\<close>

fun stdout_truthy :: "stdout_value option \<Rightarrow> bool" where
  "stdout_truthy None = False"
| "stdout_truthy (Some (StdoutList xs)) = (xs \<noteq> [])"
| "stdout_truthy (Some (StdoutStr s)) = (s \<noteq> [])"

fun stdout_text :: "stdout_value option \<Rightarrow> string option" where
  "stdout_text None = None"
| "stdout_text (Some (StdoutList xs)) = Some (join [newline] xs)"
| "stdout_text (Some (StdoutStr s)) = Some s"

fun extract_output_rev :: "execution_step list \<Rightarrow> string option" where
  "extract_output_rev [] = None"
| "extract_output_rev (s # ss) =
     (if stdout_truthy (st_stdout (state s)) then stdout_text (st_stdout (state s))
      else extract_output_rev ss)"

definition extract_output :: "execution_step list \<Rightarrow> string option" where
  "extract_output ss = extract_output_rev (rev ss)"

definition is_waiting :: "execution_step list \<Rightarrow> bool" where
  "is_waiting ss = (ss \<noteq> [] \<and> st_waiting_for_input (state (last ss)))"

text \<open>
  \<open>run_code_guest\<close>, in the three parts of its body.  The parameters stand for what
  the controller obtains from its collaborators: \<open>simulate data_type code inputs\<close>
  is the outcome of running the simulator created for \<open>data_type\<close> under the timeout,
  \<open>exec_id\<close> the generated identifier, \<open>created_at\<close> the clock, \<open>analysis\<close> the
  result of the complexity analysis (\<open>None\<close> when it raised).  An exception that
  leaves the method is \<open>Inl\<close>.

  First part: the data type to use.
  \<^verbatim>\<open>
  if not data_type or data_type == "auto" or request.autoDetect:
      detected_type = self.detector.detect_from_code(code)
      if detected_type:
          data_type = detected_type
      else:
          if not request.dataType or request.dataType == "auto":
              raise ValueError(...)
  \<close>
\<close>

definition no_explicit_type :: "string option \<Rightarrow> bool" where
  "no_explicit_type data_type =
     (data_type = None \<or> data_type = Some [] \<or> data_type = Some ''auto'')"

definition resolve_data_type ::
  "py_object \<Rightarrow> request \<Rightarrow> string \<Rightarrow> py_exception + string option" where
  "resolve_data_type self req code0 =
     (if no_explicit_type (req_dataType req) \<or> req_autoDetect req = Some True then
        (case getattr self ''detector'' of
           Inl e \<Rightarrow> Inl e
         | Inr d \<Rightarrow>
             (case detect_from_code d code0 of
                Inl e \<Rightarrow> Inl e
              | Inr detected_type \<Rightarrow>
                  (if detected_type \<noteq> None \<and> detected_type \<noteq> Some []
                   then Inr detected_type
                   else if no_explicit_type (req_dataType req)
                   then Inl (ValueError ''Could not auto-detect data structure type.'')
                   else Inr (req_dataType req))))
      else Inr (req_dataType req))"

text \<open>
  Last part: the \<open>try\<close> block around the simulator, with its two handlers.  It always
  produces a response.
\<close>

definition guarded_run ::
  "sim_outcome \<Rightarrow> string \<Rightarrow> nat \<Rightarrow> 'c option \<Rightarrow> string \<Rightarrow> string \<Rightarrow> 'c execution_response" where
  "guarded_run outcome exec_id created_at analysis code0 dt =
     (case execute_with_timeout outcome of
        Inl e \<Rightarrow>
          (if is_TimeoutError e
           then create_error_response exec_id code0 (Some dt)
                  ''Execution timeout - code took too long to execute'' created_at (Some [])
           else create_error_response exec_id code0 (Some dt)
                  (exception_str e) created_at (Some []))
      | Inr ss \<Rightarrow>
          (case find_error_message ss of
             Some error_message \<Rightarrow>
               create_error_response exec_id code0 (Some dt) error_message created_at (Some ss)
           | None \<Rightarrow>
               \<lparr> executionId = exec_id, r_code = code0, r_dataType = Some dt,
                 steps = ss, totalSteps = length ss,
                 status = (if is_waiting ss then Waiting else Success),
                 errorMessage = None, executedAt = created_at,
                 createdAt = created_at, r_output = extract_output ss,
                 complexity = analysis \<rparr>))"

definition run_code_guest ::
  "py_object \<Rightarrow> (string \<Rightarrow> string \<Rightarrow> string list \<Rightarrow> sim_outcome) \<Rightarrow> string \<Rightarrow> nat
     \<Rightarrow> (string \<Rightarrow> 'c option) \<Rightarrow> request \<Rightarrow> py_exception + 'c execution_response" where
  "run_code_guest self simulate exec_id created_at analysis req =
     (let code0 = strip (req_code req);
          input_values = (case req_inputValues req of None \<Rightarrow> [] | Some vs \<Rightarrow> vs)
      in case resolve_data_type self req code0 of
           Inl e \<Rightarrow> Inl e
         | Inr None \<Rightarrow> Inl (AttributeError ''NoneType object has no attribute lower'')
         | Inr (Some dt) \<Rightarrow>
             if \<not> is_supported dt then Inl (NotImplementedError ''DataType not supported yet.'')
             else Inr (guarded_run (simulate dt code0 input_values) exec_id created_at
                         (analysis code0) code0 dt))"

text \<open>The status of the response, when the method returned one.\<close>

definition response_status :: "py_exception + 'c execution_response \<Rightarrow> step_status option" where
  "response_status res = (case res of Inl e \<Rightarrow> None | Inr r \<Rightarrow> Some (status r))"

definition response_error :: "py_exception + 'c execution_response \<Rightarrow> string option" where
  "response_error res = (case res of Inl e \<Rightarrow> None | Inr r \<Rightarrow> errorMessage r)"

section \<open>Parsed JSON\<close>

text \<open>
  What \<open>json.loads\<close> returns.  A float carries its value as a real number.
\<close>

datatype json =
    JNull
  | JBool bool
  | JInt int
  | JFloat real
  | JStr string
  | JList "json list"
  | JObj "(string \<times> json) list"

text \<open>Python's truth value of a parsed JSON value (\<open>if x:\<close>).\<close>

fun truthy :: "json \<Rightarrow> bool" where
  "truthy JNull = False"
| "truthy (JBool b) = b"
| "truthy (JInt i) = (i \<noteq> 0)"
| "truthy (JFloat r) = (r \<noteq> 0)"
| "truthy (JStr s) = (s \<noteq> [])"
| "truthy (JList xs) = (xs \<noteq> [])"
| "truthy (JObj kvs) = (kvs \<noteq> [])"

text \<open>\<open>isinstance(v, dict) and key in v\<close>, and \<open>v[key]\<close> then.\<close>

fun dict_has :: "json \<Rightarrow> string \<Rightarrow> bool" where
  "dict_has (JObj kvs) k = (map_of kvs k \<noteq> None)"
| "dict_has v k = False"

fun dict_item :: "json \<Rightarrow> string \<Rightarrow> json" where
  "dict_item (JObj kvs) k = (case map_of kvs k of Some v \<Rightarrow> v | None \<Rightarrow> JNull)"
| "dict_item v k = JNull"

text \<open>Whether a string of a parsed value, a key or a string value, contains the text \<open>d\<close>.\<close>

fun json_mentions :: "string \<Rightarrow> json \<Rightarrow> bool"
  and json_list_mentions :: "string \<Rightarrow> json list \<Rightarrow> bool"
  and json_fields_mention :: "string \<Rightarrow> (string \<times> json) list \<Rightarrow> bool" where
  "json_mentions d JNull = False"
| "json_mentions d (JBool b) = False"
| "json_mentions d (JInt i) = False"
| "json_mentions d (JFloat r) = False"
| "json_mentions d (JStr s) = str_contains s d"
| "json_mentions d (JList xs) = json_list_mentions d xs"
| "json_mentions d (JObj kvs) = json_fields_mention d kvs"
| "json_list_mentions d [] = False"
| "json_list_mentions d (x # xs) = (json_mentions d x \<or> json_list_mentions d xs)"
| "json_fields_mention d [] = False"
| "json_fields_mention d ((k, v) # kvs) =
     (str_contains k d \<or> json_mentions d v \<or> json_fields_mention d kvs)"

section \<open>Results of the executors (\<open>real_python_executor.py\<close>, \<open>interactive_python_executor.py\<close>)\<close>

text \<open>
  One entry of the trace, as it arrives in \<open>InteractiveExecutionResult.trace\<close>.
  Every entry has the keys \<open>line\<close>, \<open>event\<close>, \<open>output\<close> and
  \<open>variables\<close> (the wrapper writes them with \<open>entry.get(...)\<close>, so a missing
  value is \<open>None\<close>); \<open>error\<close> is present only on an exception entry.
\<close>

record trace_entry =
  te_line :: "int option"
  te_event :: "string option"
  te_output :: "string option"
  te_variables :: "(string \<times> json) list"
  te_error :: "string option"

text \<open>
  \<open>ExecutionResult\<close> and its subclass \<open>InteractiveExecutionResult\<close>;
  \<open>res_interactive\<close> is \<open>isinstance(result, InteractiveExecutionResult)\<close>.
\<close>

record exec_result =
  res_stdout :: string
  res_stderr :: string
  res_exit_code :: int
  res_timed_out :: bool
  res_output :: "json option"
  res_trace :: "trace_entry list"
  res_input_history :: "string list"
  res_interactive :: bool

section \<open>\<open>DirectCodeExecutor\<close> (\<open>direct_code_executor.py\<close>)\<close>

text \<open>
  What the executor takes from outside the modelled code:
  \<^item> \<open>json_loads\<close>: \<open>json.loads\<close>, \<open>None\<close> when it raises \<open>JSONDecodeError\<close>;
  \<^item> \<open>py_str\<close>: \<open>str(v)\<close> of a parsed value that is not itself a string;
  \<^item> \<open>enrich_raises\<close>: the part of the trace loop between the construction of the
    \<open>state\<close> dictionary and \<open>steps.append\<close> (instance detection, step detail,
    warnings) writes keys of \<open>state\<close> that are not modelled; it is not guarded by a
    \<open>try\<close>, so an exception raised there leaves \<open>_create_steps_from_result\<close>.
    \<open>enrich_raises te\<close> is that exception, if any, for the trace entry \<open>te\<close>.
\<close>

record host_env =
  json_loads :: "string \<Rightarrow> json option"
  py_str :: "json \<Rightarrow> string"
  enrich_raises :: "trace_entry \<Rightarrow> py_exception option"

definition str_of :: "host_env \<Rightarrow> json \<Rightarrow> string" where
  "str_of env v = (case v of JStr s \<Rightarrow> s | _ \<Rightarrow> py_str env v)"

text \<open>\<^verbatim>\<open>code.split('\n')[0] if code.split('\n') else code\<close>\<close>

definition first_line :: "string \<Rightarrow> string" where
  "first_line code0 = (case split_lines code0 of [] \<Rightarrow> code0 | l # ls \<Rightarrow> l)"

text \<open>\<open>_has_input_call\<close>\<close>

definition has_input_call :: "string \<Rightarrow> bool" where
  "has_input_call code0 = (str_contains code0 ''input('' \<or> str_contains code0 ''input ('')"

definition force_tracing_types :: "string list" where
  "force_tracing_types = [''stack'', ''queue'', ''linked_list'', ''singlylinkedlist'',
     ''doublylinkedlist'', ''binary_search_tree'', ''binarysearchtree'', ''graph'', ''tree'',
     ''directedgraph'', ''undirectedgraph'']"

text \<open>\<open>_create_error_step\<close>\<close>

definition create_error_step :: "string \<Rightarrow> exec_result \<Rightarrow> int \<Rightarrow> execution_step list" where
  "create_error_step code0 result step_number =
     [\<lparr> stepNumber = step_number, line = 1, code = first_line code0,
        state = \<lparr> st_error = Some (if res_stderr result \<noteq> [] then res_stderr result
                                    else ''Execution failed''),
                  st_stdout = None, st_waiting_for_input = False,
                  st_detail_print = False, st_detail_output = None \<rparr> \<rparr>]"

text \<open>
  The loop of \<open>_create_steps_from_result\<close> over the trace.  Its variables:
\<close>

record loop_state =
  ls_steps :: "execution_step list"
  ls_step_number :: int
  ls_accumulated_stdout :: "string list"
  ls_current_line_buffer :: string

text \<open>
  \<^verbatim>\<open>
  if step_output:
      if step_output.endswith('\n'):
          full_line = current_line_buffer + step_output.rstrip('\n')
          if full_line: accumulated_stdout.append(full_line)
          current_line_buffer = ""
      else:
          current_line_buffer += step_output
  \<close>
\<close>

definition accumulate_output :: "string option \<Rightarrow> loop_state \<Rightarrow> loop_state" where
  "accumulate_output step_output ls =
     (case step_output of
        None \<Rightarrow> ls
      | Some out \<Rightarrow>
          if out = [] then ls
          else if endswith out [newline] then
            (let full_line = ls_current_line_buffer ls @ rstrip_newline out
             in ls \<lparr> ls_accumulated_stdout :=
                       (if full_line \<noteq> [] then ls_accumulated_stdout ls @ [full_line]
                        else ls_accumulated_stdout ls),
                     ls_current_line_buffer := [] \<rparr>)
          else ls \<lparr> ls_current_line_buffer := ls_current_line_buffer ls @ out \<rparr>)"

text \<open>The step appended for an entry whose event is \<open>exception\<close>.\<close>

definition exception_step :: "trace_entry \<Rightarrow> loop_state \<Rightarrow> execution_step" where
  "exception_step te ls =
     \<lparr> stepNumber = ls_step_number ls,
       line = (if ls_steps ls \<noteq> [] then line (last (ls_steps ls)) else 1),
       code = (if ls_steps ls \<noteq> [] then code (last (ls_steps ls)) else []),
       state = \<lparr> st_error = Some (case te_error te of None \<Rightarrow> ''Unknown Error'' | Some m \<Rightarrow> m),
                 st_stdout = Some (StdoutList (ls_accumulated_stdout ls)),
                 st_waiting_for_input = False,
                 st_detail_print = False, st_detail_output = None \<rparr> \<rparr>"

text \<open>
  \<^verbatim>\<open>
  current_code = ""
  if 1 <= line_no <= len(code_lines):
      current_code = code_lines[line_no - 1].strip()
  \<close>
\<close>

definition code_at :: "string list \<Rightarrow> int \<Rightarrow> string" where
  "code_at code_lines line_no =
     (if 1 \<le> line_no \<and> line_no \<le> int (length code_lines)
      then strip (code_lines ! nat (line_no - 1)) else [])"

fun trace_loop ::
  "host_env \<Rightarrow> string list \<Rightarrow> trace_entry list \<Rightarrow> loop_state \<Rightarrow> py_exception + loop_state" where
  "trace_loop env code_lines [] ls = Inr ls"
| "trace_loop env code_lines (te # rest) ls =
     (if te_event te = Some ''exception'' then
        trace_loop env code_lines rest
          (ls \<lparr> ls_steps := ls_steps ls @ [exception_step te ls],
                ls_step_number := ls_step_number ls + 1 \<rparr>)
      else
        (case te_line te of
           None \<Rightarrow> Inl (TypeError ''<= not supported between int and NoneType'')
         | Some line_no \<Rightarrow>
             (let current_code = code_at code_lines line_no
              in if current_code = [] \<or> startswith current_code ''#''
                 then trace_loop env code_lines rest ls
                 else
                   (let ls1 = accumulate_output (te_output te) ls
                    in case enrich_raises env te of
                         Some e \<Rightarrow> Inl e
                       | None \<Rightarrow>
                           trace_loop env code_lines rest
                             (ls1 \<lparr> ls_steps := ls_steps ls1 @
                                      [\<lparr> stepNumber = ls_step_number ls1, line = line_no,
                                         code = current_code,
                                         state = \<lparr> st_error = None,
                                           st_stdout = Some (StdoutList (ls_accumulated_stdout ls1)),
                                           st_waiting_for_input = False,
                                           st_detail_print = False,
                                           st_detail_output = te_output te \<rparr> \<rparr>],
                                    ls_step_number := ls_step_number ls1 + 1 \<rparr>)))))"

text \<open>
  After the loop: a partial last line is flushed into \<open>accumulated_stdout\<close> and
  written to the last step.
\<close>

definition flush_buffer :: "loop_state \<Rightarrow> execution_step list" where
  "flush_buffer ls =
     (if ls_current_line_buffer ls \<noteq> [] \<and> ls_steps ls \<noteq> []
      then butlast (ls_steps ls) @
             [last (ls_steps ls)
                \<lparr> state := state (last (ls_steps ls))
                     \<lparr> st_stdout := Some (StdoutList (ls_accumulated_stdout ls
                                                      @ [ls_current_line_buffer ls])) \<rparr> \<rparr>]
      else ls_steps ls)"

text \<open>
  The rest of \<open>_create_steps_from_result\<close>, reached when the trace gave no step:
  steps are made from the \<open>print(\<close> lines of the source text.  First the printed
  output is recovered, from \<open>result.output\<close> or else from \<open>result.stdout\<close>.
\<close>

definition outputs_of_value :: "host_env \<Rightarrow> json \<Rightarrow> string list \<times> string" where
  "outputs_of_value env v =
     (case v of
        JStr s \<Rightarrow> ([s], s)
      | JList xs \<Rightarrow> (map (str_of env) xs, join [newline] (map (str_of env) xs))
      | _ \<Rightarrow> ([py_str env v], py_str env v))"

text \<open>
  An error step of the fallback.  Its \<open>error\<close> is the value found under the key
  \<open>error\<close> of the parsed document; a value that is not a string is never read as an
  error by the controller (\<open>isinstance(error, str)\<close>), so it is recorded as absent.
\<close>

definition parsed_error_step :: "string \<Rightarrow> int \<Rightarrow> json \<Rightarrow> execution_step" where
  "parsed_error_step code0 step_number err =
     \<lparr> stepNumber = step_number, line = 1, code = first_line code0,
       state = \<lparr> st_error = (case err of JStr m \<Rightarrow> Some m | _ \<Rightarrow> None),
                 st_stdout = None, st_waiting_for_input = False,
                 st_detail_print = False, st_detail_output = None \<rparr> \<rparr>"

text \<open>
  \<open>Inl\<close> is the early \<open>return [error_step]\<close>; \<open>Inr\<close> is
  \<open>(print_outputs, actual_stdout)\<close>.  The first definition is the branch
  \<open>elif result.stdout:\<close>, taken when \<open>result.output\<close> is not truthy.
\<close>

definition outputs_from_stdout ::
  "host_env \<Rightarrow> string \<Rightarrow> exec_result \<Rightarrow> int \<Rightarrow> execution_step list + (string list \<times> string)" where
  "outputs_from_stdout env code0 result step_number =
     (if res_stdout result \<noteq> [] then
        (case json_loads env (strip (res_stdout result)) of
           Some parsed \<Rightarrow>
             (if dict_has parsed ''output''
              then Inr (outputs_of_value env (dict_item parsed ''output''))
              else if dict_has parsed ''error''
              then Inl [parsed_error_step code0 step_number (dict_item parsed ''error'')]
              else Inr (if strip (res_stdout result) \<noteq> [] then [res_stdout result] else [],
                        res_stdout result))
         | None \<Rightarrow>
             (if strip (res_stdout result) \<noteq> []
              then Inr ([strip (res_stdout result)], strip (res_stdout result))
              else Inr ([], [])))
      else Inr ([], []))"

definition gather_outputs ::
  "host_env \<Rightarrow> string \<Rightarrow> exec_result \<Rightarrow> int \<Rightarrow> execution_step list + (string list \<times> string)" where
  "gather_outputs env code0 result step_number =
     (case res_output result of
        Some out \<Rightarrow>
          (if truthy out then
             (if dict_has out ''output'' then Inr (outputs_of_value env (dict_item out ''output''))
              else if res_interactive result \<and> dict_has out ''trace'' then Inr ([], [])
              else Inr ([py_str env out], py_str env out))
           else outputs_from_stdout env code0 result step_number)
      | None \<Rightarrow> outputs_from_stdout env code0 result step_number)"

text \<open>
  \<^verbatim>\<open>
  if not print_outputs and result.stderr:
      try:
          error_info = json.loads(result.stderr.strip())
          if isinstance(error_info, dict) and "error" in error_info:
              return [error_step]
      except (json.JSONDecodeError, KeyError): pass
  \<close>
\<close>

definition stderr_error :: "host_env \<Rightarrow> string list \<Rightarrow> exec_result \<Rightarrow> json option" where
  "stderr_error env print_outputs result =
     (if print_outputs = [] \<and> res_stderr result \<noteq> [] then
        (case json_loads env (strip (res_stderr result)) of
           Some error_info \<Rightarrow>
             (if dict_has error_info ''error'' then Some (dict_item error_info ''error'')
              else None)
         | None \<Rightarrow> None)
      else None)"

text \<open>
  One step for every source line that contains \<open>print(\<close> and is not a comment
  (\<open>enumerate(code_lines, 1)\<close>).  Of the two \<open>stdout\<close> keys of the dictionary
  literal the later one, \<open>actual_stdout\<close>, is the one that stays.  The outputs are
  matched to the print statements by order:
  \<^verbatim>\<open>
  output_value = ""
  if print_outputs:
      if print_statement_count < len(print_outputs):
          output_value = print_outputs[print_statement_count]
  \<close>
\<close>

fun print_steps ::
  "string \<Rightarrow> string list \<Rightarrow> nat \<Rightarrow> string list \<Rightarrow> int \<Rightarrow> int \<Rightarrow> execution_step list" where
  "print_steps actual_stdout print_outputs print_statement_count [] line_num step_number = []"
| "print_steps actual_stdout print_outputs print_statement_count (l # ls) line_num step_number =
     (let stripped_line = strip l
      in if startswith stripped_line ''#''
         then print_steps actual_stdout print_outputs print_statement_count ls
                (line_num + 1) step_number
         else if startswith stripped_line ''print('' \<or> str_contains stripped_line ''print(''
         then \<lparr> stepNumber = step_number, line = line_num, code = stripped_line,
                state = \<lparr> st_error = None, st_stdout = Some (StdoutStr actual_stdout),
                          st_waiting_for_input = False,
                          st_detail_print = True,
                          st_detail_output =
                            Some (if print_statement_count < length print_outputs
                                  then print_outputs ! print_statement_count else []) \<rparr> \<rparr>
              # print_steps actual_stdout print_outputs (print_statement_count + 1) ls
                  (line_num + 1) (step_number + 1)
         else print_steps actual_stdout print_outputs print_statement_count ls
                (line_num + 1) step_number)"

definition fallback_steps ::
  "host_env \<Rightarrow> string \<Rightarrow> exec_result \<Rightarrow> int \<Rightarrow> execution_step list" where
  "fallback_steps env code0 result step_number =
     (case gather_outputs env code0 result step_number of
        Inl early \<Rightarrow> early
      | Inr (print_outputs, actual_stdout) \<Rightarrow>
          (case stderr_error env print_outputs result of
             Some err \<Rightarrow> [parsed_error_step code0 step_number err]
           | None \<Rightarrow>
               (let ss = print_steps actual_stdout print_outputs 0 (split_lines code0) 1 step_number
                in if ss \<noteq> [] then ss
                   else [\<lparr> stepNumber = step_number, line = 1, code = first_line code0,
                           state = \<lparr> st_error = None,
                                     st_stdout = Some (StdoutList print_outputs),
                                     st_waiting_for_input = False,
                                     st_detail_print = False, st_detail_output = None \<rparr> \<rparr>])))"

text \<open>
  \<open>_create_steps_from_result\<close>: the trace loop when there is a trace, its steps if it
  made any, the fallback otherwise.  \<open>Inl\<close> is an exception leaving the method.
\<close>

definition create_steps_from_result ::
  "host_env \<Rightarrow> string \<Rightarrow> exec_result \<Rightarrow> int \<Rightarrow> py_exception + execution_step list" where
  "create_steps_from_result env code0 result step_number =
     (if res_interactive result \<and> res_trace result \<noteq> [] then
        (case trace_loop env (split_lines code0) (res_trace result)
                \<lparr> ls_steps = [], ls_step_number = step_number,
                  ls_accumulated_stdout = [], ls_current_line_buffer = [] \<rparr> of
           Inl e \<Rightarrow> Inl e
         | Inr ls \<Rightarrow>
             (if flush_buffer ls \<noteq> [] then Inr (flush_buffer ls)
              else Inr (fallback_steps env code0 result step_number)))
      else Inr (fallback_steps env code0 result step_number))"

text \<open>
  \<open>_create_steps_from_interactive_result\<close> adds the input history to the
  \<open>step_detail\<close> of each step, a key outside the model.
\<close>

definition create_steps_from_interactive_result ::
  "host_env \<Rightarrow> string \<Rightarrow> exec_result \<Rightarrow> int \<Rightarrow> py_exception + execution_step list" where
  "create_steps_from_interactive_result env code0 result step_number =
     create_steps_from_result env code0 result step_number"

text \<open>The waiting signal that \<open>execute\<close> looks for in the captured output.\<close>

definition waiting_marker :: string where
  "waiting_marker = ''__WAITING_FOR_INPUT__:''"

definition detect_waiting_signal :: "host_env \<Rightarrow> exec_result \<Rightarrow> exec_result \<times> json option" where
  "detect_waiting_signal env result =
     (if res_stdout result \<noteq> [] \<and> str_contains (res_stdout result) waiting_marker then
        (case split (res_stdout result) waiting_marker of
           p0 # p1 # ps \<Rightarrow> (result \<lparr> res_stdout := p0 \<rparr>, json_loads env (strip p1))
         | _ \<Rightarrow> (result, None))
      else (result, None))"

text \<open>\<open>xs[i]\<close> for a Python index, negative ones counting from the end.\<close>

definition py_index :: "'a list \<Rightarrow> int \<Rightarrow> py_exception + 'a" where
  "py_index xs i =
     (let n = int (length xs); j = (if i < 0 then i + n else i)
      in if 0 \<le> j \<and> j < n then Inr (xs ! nat j)
         else Inl (IndexError ''list index out of range''))"

text \<open>
  The step appended for a waiting signal.  \<open>waiting_signal.get\<close> needs a dictionary;
  the value under \<open>line\<close> is used as a number (\<open>- 1\<close>), as a list index and as the
  \<open>line\<close> of the step.
\<close>

definition waiting_step ::
  "string \<Rightarrow> json \<Rightarrow> execution_step list \<Rightarrow> py_exception + execution_step" where
  "waiting_step code0 waiting_signal ss =
     (case waiting_signal of
        JObj kvs \<Rightarrow>
          (let line_v = (case map_of kvs ''line'' of
                           None \<Rightarrow> Inr (int (length (split_lines code0)), 1)
                         | Some (JInt k) \<Rightarrow> Inr (k, k)
                         | Some (JBool b) \<Rightarrow> Inr (if b then 1 else 0, if b then 1 else 0)
                         | Some v \<Rightarrow> Inl (TypeError ''unsupported operand or index type''))
           in case line_v of
                Inl e \<Rightarrow> Inl e
              | Inr (step_line, k) \<Rightarrow>
                  (case py_index (split_lines code0) (k - 1) of
                     Inl e \<Rightarrow> Inl e
                   | Inr l \<Rightarrow>
                       Inr \<lparr> stepNumber = int (length ss) + 1, line = step_line, code = strip l,
                             state = \<lparr> st_error = None,
                               st_stdout = (if ss \<noteq> [] then
                                  (case st_stdout (state (last ss)) of
                                     None \<Rightarrow> Some (StdoutList []) | Some v \<Rightarrow> Some v)
                                  else Some (StdoutList [])),
                               st_waiting_for_input = True,
                               st_detail_print = False, st_detail_output = None \<rparr> \<rparr>))
      | _ \<Rightarrow> Inl (AttributeError ''object has no attribute get''))"

text \<open>The two executors, as \<open>execute\<close> calls them.\<close>

record executors =
  execute_interactive :: "string \<Rightarrow> string \<Rightarrow> string list \<Rightarrow> exec_result"
  real_execute :: "string \<Rightarrow> string \<Rightarrow> exec_result"

text \<open>The body of the \<open>try\<close> of \<open>execute\<close>.\<close>

definition execute_body ::
  "host_env \<Rightarrow> executors \<Rightarrow> string \<Rightarrow> string \<Rightarrow> string option \<Rightarrow> string list option
     \<Rightarrow> py_exception + execution_step list" where
  "execute_body env ex code0 stdin_data data_structure_type input_values =
     (let step_number = 1;
          has_input = has_input_call code0;
          force_tracing = (case data_structure_type of None \<Rightarrow> False
                           | Some t \<Rightarrow> t \<in> set force_tracing_types);
          result0 =
            (if has_input \<or> force_tracing
             then (execute_interactive ex code0 stdin_data
                     (case input_values of None \<Rightarrow> [] | Some vs \<Rightarrow> vs))
                    \<lparr> res_interactive := True \<rparr>
             else (real_execute ex code0 stdin_data) \<lparr> res_interactive := False \<rparr>);
          (result, waiting_signal) = detect_waiting_signal env result0;
          made =
            (if res_interactive result then
               (case create_steps_from_interactive_result env code0 result step_number of
                  Inl e \<Rightarrow> Inl e
                | Inr ss \<Rightarrow>
                    (if res_exit_code result \<noteq> 0
                     then Inr (ss @ create_error_step code0 result (step_number + int (length ss)))
                     else Inr ss))
             else if res_exit_code result = 0
             then create_steps_from_result env code0 result step_number
             else Inr (create_error_step code0 result step_number))
      in case made of
           Inl e \<Rightarrow> Inl e
         | Inr ss \<Rightarrow>
             (case waiting_signal of
                None \<Rightarrow> Inr ss
              | Some w \<Rightarrow>
                  (if truthy w then
                     (case waiting_step code0 w ss of
                        Inl e \<Rightarrow> Inl e
                      | Inr st \<Rightarrow> Inr (ss @ [st]))
                   else Inr ss)))"

text \<open>The handler of \<open>execute\<close>: \<open>except Exception as e: ... return [error_step]\<close>.\<close>

definition unexpected_error_step :: "string \<Rightarrow> py_exception \<Rightarrow> execution_step" where
  "unexpected_error_step code0 e =
     \<lparr> stepNumber = 1, line = 1, code = first_line code0,
       state = \<lparr> st_error = Some (''Unexpected error: '' @ exception_str e),
                 st_stdout = None, st_waiting_for_input = False,
                 st_detail_print = False, st_detail_output = None \<rparr> \<rparr>"

definition execute ::
  "host_env \<Rightarrow> executors \<Rightarrow> string \<Rightarrow> string \<Rightarrow> string option \<Rightarrow> string list option
     \<Rightarrow> execution_step list" where
  "execute env ex code0 stdin_data data_structure_type input_values =
     (case execute_body env ex code0 stdin_data data_structure_type input_values of
        Inl e \<Rightarrow> [unexpected_error_step code0 e]
      | Inr ss \<Rightarrow> ss)"

text \<open>Step numbers \<open>k, k + 1, k + 2, ...\<close> in this order.\<close>

fun numbered_from :: "int \<Rightarrow> execution_step list \<Rightarrow> bool" where
  "numbered_from k [] = True"
| "numbered_from k (s # ss) = (stepNumber s = k \<and> numbered_from (k + 1) ss)"

section \<open>The trace wrapper (\<open>InteractivePythonExecutor._wrap_code_with_trace\<close>)\<close>

text \<open>
  The module-level variables of the wrapper that the guest program runs under.
  \<open>last_trace_entry\<close> is the last element of \<open>trace_data\<close> while the guest runs.
\<close>

record wrapper_state =
  ws_input_values :: "string list"
  ws_input_index :: nat
  ws_captured_stdout :: string
  ws_last_stdout_len :: nat
  ws_trace_data :: "trace_entry list"

text \<open>
  \<^verbatim>\<open>
  def custom_input(prompt=''):
      global input_index
      print(prompt, end='')
      if input_index < len(input_values):
          value = input_values[input_index]
          input_index += 1
          print(value)
          return value
      raise Exception("No more input provided")
  \<close>
  The function never reads the standard input of the process.
\<close>

definition custom_input ::
  "string \<Rightarrow> wrapper_state \<Rightarrow> (py_exception \<times> wrapper_state) + (string \<times> wrapper_state)" where
  "custom_input prompt ws =
     (let ws1 = ws \<lparr> ws_captured_stdout := ws_captured_stdout ws @ prompt \<rparr>
      in if ws_input_index ws1 < length (ws_input_values ws1) then
           (let v = ws_input_values ws1 ! ws_input_index ws1
            in Inr (v, ws1 \<lparr> ws_input_index := ws_input_index ws1 + 1,
                           ws_captured_stdout := ws_captured_stdout ws1 @ v @ [newline] \<rparr>))
         else Inl (PyException ''No more input provided'', ws1))"

text \<open>
  \<open>trace_lines\<close> on a \<open>line\<close> event of the guest text at line \<open>line_no\<close>, the frame's
  variables being \<open>local_vars\<close> once serialised: the previous entry receives the
  output printed since it was made and these variables, and a new entry is appended.
\<close>

definition look_back :: "string \<Rightarrow> nat \<Rightarrow> trace_entry \<Rightarrow> trace_entry" where
  "look_back current_stdout last_len te =
     (let diff = drop last_len current_stdout
      in if diff \<noteq> [] then te \<lparr> te_output := Some diff \<rparr> else te)"

definition trace_lines :: "int \<Rightarrow> (string \<times> json) list \<Rightarrow> wrapper_state \<Rightarrow> wrapper_state" where
  "trace_lines line_no local_vars ws =
     (let td = ws_trace_data ws;
          td1 = (if td = [] then []
                 else butlast td @
                        [(look_back (ws_captured_stdout ws) (ws_last_stdout_len ws) (last td))
                           \<lparr> te_variables := local_vars \<rparr>])
      in ws \<lparr> ws_last_stdout_len := length (ws_captured_stdout ws),
              ws_trace_data := td1 @ [\<lparr> te_line = Some line_no, te_event = Some ''line'',
                                      te_output = None, te_variables = [], te_error = None \<rparr>] \<rparr>)"

text \<open>
  A guest program, by what it does when run under the wrapper: it executes a line
  (the trace hook is called), prints, calls \<open>input\<close> and goes on with the value it
  gets, raises, or exits.  \<open>TryInput p k h\<close> is a call of \<open>input\<close> inside a
  \<open>try\<close> of the guest's own whose handler catches \<open>Exception\<close> and goes on as
  \<open>h\<close>.  \<open>Finish vars\<close> ends the program with the global variables \<open>vars\<close>.
  \<open>Hang\<close> is a guest that is still running when the timeout of the executor expires
  (\<open>process.communicate(timeout=self.timeout)\<close> raises \<open>TimeoutExpired\<close>) and is
  killed.  The guest is taken not to assign the wrapper's own variables, with which
  it shares one namespace, and not to write to the standard streams of the process
  other than through \<open>print\<close>.
\<close>

datatype guest =
    Finish "(string \<times> json) list"
  | Line int "(string \<times> json) list" guest
  | Print string guest
  | Input string "string \<Rightarrow> guest"
  | TryInput string "string \<Rightarrow> guest" guest
  | Raise string
  | Exit int
  | Hang

datatype guest_end =
    Completed "(string \<times> json) list"
  | Uncaught py_exception
  | SystemExit int
  | Killed

primrec run_guest :: "guest \<Rightarrow> wrapper_state \<Rightarrow> guest_end \<times> wrapper_state" where
  "run_guest (Finish vars) = (\<lambda>ws. (Completed vars, ws))"
| "run_guest (Line line_no local_vars g) = (\<lambda>ws. run_guest g (trace_lines line_no local_vars ws))"
| "run_guest (Print text g) =
     (\<lambda>ws. run_guest g (ws \<lparr> ws_captured_stdout := ws_captured_stdout ws @ text \<rparr>))"
| "run_guest (Input prompt k) =
     (\<lambda>ws. case custom_input prompt ws of
              Inl (e, ws1) \<Rightarrow> (Uncaught e, ws1)
            | Inr (v, ws1) \<Rightarrow> run_guest (k v) ws1)"
| "run_guest (TryInput prompt k h) =
     (\<lambda>ws. case custom_input prompt ws of
              Inl (e, ws1) \<Rightarrow> run_guest h ws1
            | Inr (v, ws1) \<Rightarrow> run_guest (k v) ws1)"
| "run_guest (Raise m) = (\<lambda>ws. (Uncaught (PyException m), ws))"
| "run_guest (Exit c) = (\<lambda>ws. (SystemExit c, ws))"
| "run_guest Hang = (\<lambda>ws. (Killed, ws))"

text \<open>
  What the wrapper process leaves behind: the document it prints after the delimiter
  and its exit code; or nothing, when it is killed before it gets there
  (\<open>wo_timed_out\<close>).
\<close>

record wrapper_output =
  wo_trace :: "trace_entry list"
  wo_stdout :: string
  wo_input_history :: "string list"
  wo_exit_code :: int
  wo_timed_out :: bool

text \<open>
  The \<open>try / except Exception / finally\<close> of the wrapper around
  \<open>exec(compiled_code, globals())\<close>.  After a normal end the last entry receives the
  remaining output and the final variables; an \<open>Exception\<close> is appended to the trace
  as an entry of its own and the process still ends with exit code 0; \<open>SystemExit\<close>
  is not an \<open>Exception\<close> and ends the process with its code after the \<open>finally\<close>.
  A process that is killed prints nothing; the executor sets its exit code to -1.
\<close>

definition exception_entry :: "py_exception \<Rightarrow> trace_entry" where
  "exception_entry e =
     \<lparr> te_line = None, te_event = Some ''exception'', te_output = None,
       te_variables = [], te_error = Some (exception_str e) \<rparr>"

definition wrapper_main :: "guest \<Rightarrow> string list \<Rightarrow> wrapper_output" where
  "wrapper_main g input_values =
     (case run_guest g \<lparr> ws_input_values = input_values, ws_input_index = 0,
                         ws_captured_stdout = [], ws_last_stdout_len = 0,
                         ws_trace_data = [] \<rparr> of
        (ending, ws) \<Rightarrow>
          (let td = ws_trace_data ws;
               trace1 =
                 (case ending of
                    Completed final_vars \<Rightarrow>
                      (if td = [] then []
                       else butlast td @
                              [(let te = look_back (ws_captured_stdout ws) (ws_last_stdout_len ws)
                                           (last td)
                                in if final_vars \<noteq> [] then te \<lparr> te_variables := final_vars \<rparr>
                                   else te)])
                  | Uncaught e \<Rightarrow> td @ [exception_entry e]
                  | SystemExit c \<Rightarrow> td
                  | Killed \<Rightarrow> td)
           in \<lparr> wo_trace = trace1, wo_stdout = ws_captured_stdout ws,
                wo_input_history = take (ws_input_index ws) (ws_input_values ws),
                wo_exit_code = (case ending of SystemExit c \<Rightarrow> c | Killed \<Rightarrow> - 1 | _ \<Rightarrow> 0),
                wo_timed_out = (ending = Killed) \<rparr>))"

text \<open>
  \<open>execute_with_subprocess\<close> followed by \<open>_parse_interactive_output\<close>, on what the
  wrapper process left.

  The process that ran to its end has printed the delimiter line and then
  \<open>json.dumps(result)\<close>, and nothing else.  \<open>_parse_interactive_output\<close> splits that
  output at the delimiter and parses the second piece:
  \<^verbatim>\<open>
  if delimiter in stdout:
      parts = stdout.split(delimiter)
      actual_stdout = parts[0]
      json_part = parts[1].strip()
      try:
          result_data = json.loads(json_part)
          trace = result_data.get("trace", [])
          ...
      except json.JSONDecodeError:
          stderr += "\nFailed to parse interactive result JSON"
  \<close>
  \<open>json.dumps\<close> writes the characters of the delimiter as they are, and outside its
  string literals the text has no three hyphens in a row; so the second piece is the
  whole document unless a string of the document contains the delimiter, and then
  it ends inside a string literal and \<open>json.loads\<close> raises \<open>JSONDecodeError\<close>: the
  trace and the input history stay empty, the output is the text before the first
  delimiter, which is empty, and \<open>output\<close> stays \<open>{}\<close>.  The strings of the document
  are the captured output, the input history, and in the trace entries the event,
  the output, the variables, the error and the traceback, which repeats the error.

  A process that was killed has printed nothing: there is no delimiter, and the
  executor has set \<open>exit_code = -1\<close>, \<open>timed_out = True\<close> and
  \<open>stderr = "Code execution timed out"\<close>.
\<close>

definition delimiter :: string where
  "delimiter = ''---INTERACTIVE_EXECUTION_RESULT---''"

definition entry_json :: "trace_entry \<Rightarrow> json" where
  "entry_json te =
     JObj [(''line'', (case te_line te of None \<Rightarrow> JNull | Some n \<Rightarrow> JInt n)),
           (''event'', (case te_event te of None \<Rightarrow> JNull | Some e \<Rightarrow> JStr e)),
           (''output'', (case te_output te of None \<Rightarrow> JNull | Some out \<Rightarrow> JStr out)),
           (''variables'', JObj (te_variables te))]"

definition entry_mentions :: "string \<Rightarrow> trace_entry \<Rightarrow> bool" where
  "entry_mentions d te =
     (json_mentions d (entry_json te)
      \<or> (case te_error te of None \<Rightarrow> False | Some m \<Rightarrow> str_contains m d))"

definition document_mentions :: "string \<Rightarrow> wrapper_output \<Rightarrow> bool" where
  "document_mentions d wo =
     (str_contains (wo_stdout wo) d
      \<or> list_ex (\<lambda>v. str_contains v d) (wo_input_history wo)
      \<or> list_ex (entry_mentions d) (wo_trace wo))"

definition timeout_text :: string where
  "timeout_text = ''Code execution timed out''"

definition parse_interactive_output :: "wrapper_output \<Rightarrow> exec_result" where
  "parse_interactive_output wo =
     (if wo_timed_out wo then
        \<lparr> res_stdout = [], res_stderr = timeout_text, res_exit_code = - 1,
          res_timed_out = True, res_output = Some (JObj []),
          res_trace = [], res_input_history = [], res_interactive = True \<rparr>
      else if document_mentions delimiter wo then
        \<lparr> res_stdout = [],
          res_stderr = newline # ''Failed to parse interactive result JSON'',
          res_exit_code = wo_exit_code wo, res_timed_out = False,
          res_output = Some (JObj []),
          res_trace = [], res_input_history = [], res_interactive = True \<rparr>
      else
        \<lparr> res_stdout = wo_stdout wo, res_stderr = [], res_exit_code = wo_exit_code wo,
          res_timed_out = False,
          res_output = Some (JObj [(''trace'', JList (map entry_json (wo_trace wo))),
                                   (''stdout'', JStr (wo_stdout wo)),
                                   (''input_history'', JList (map JStr (wo_input_history wo)))]),
          res_trace = wo_trace wo, res_input_history = wo_input_history wo,
          res_interactive = True \<rparr>)"

text \<open>
  The interactive executor on a guest text whose behaviour is \<open>guest_of code\<close>.
  (The other executor is not used on the traced path.)
\<close>

definition guest_executors :: "(string \<Rightarrow> guest) \<Rightarrow> (string \<Rightarrow> string \<Rightarrow> exec_result) \<Rightarrow> executors" where
  "guest_executors guest_of plain =
     \<lparr> execute_interactive =
         (\<lambda>code0 stdin_data input_values.
            parse_interactive_output (wrapper_main (guest_of code0) input_values)),
       real_execute = plain \<rparr>"


text \<open>Following the supplied values, the guest is still running at the timeout.\<close>

primrec hangs :: "guest \<Rightarrow> string list \<Rightarrow> bool" where
  "hangs (Finish vars) = (\<lambda>vs. False)"
| "hangs (Line line_no local_vars g) = (\<lambda>vs. hangs g vs)"
| "hangs (Print text g) = (\<lambda>vs. hangs g vs)"
| "hangs (Input prompt k) = (\<lambda>vs. case vs of [] \<Rightarrow> False | v # vs' \<Rightarrow> hangs (k v) vs')"
| "hangs (TryInput prompt k h) =
     (\<lambda>vs. case vs of [] \<Rightarrow> hangs h [] | v # vs' \<Rightarrow> hangs (k v) vs')"
| "hangs (Raise m) = (\<lambda>vs. False)"
| "hangs (Exit c) = (\<lambda>vs. False)"
| "hangs Hang = (\<lambda>vs. True)"

section \<open>Concrete runs\<close>

text \<open>
  A guest of two lines,
  \<^verbatim>\<open>print('__WAITING_FOR_INPUT__:{"line": 99}')\<close> and \<^verbatim>\<open>raise SystemExit(1)\<close>,
  run for the data type \<open>stack\<close>: it prints a text that starts with the waiting
  marker and ends the process with exit code 1.
\<close>

definition exit_source :: string where
  \<open>exit_source = ''print('__WAITING_FOR_INPUT__:{"line": 99}')'' @ [newline] @ ''raise SystemExit(1)''\<close>

definition exit_guest :: guest where
  \<open>exit_guest =
     Line 1 [] (Print (''__WAITING_FOR_INPUT__:{"line": 99}'' @ [newline]) (Line 2 [] (Exit 1)))\<close>

definition plain_env :: host_env where
  \<open>plain_env =
     \<lparr> json_loads = (\<lambda>s. if s = ''{"line": 99}'' then Some (JObj [(''line'', JInt 99)]) else None),
       py_str = (\<lambda>v. []),
       enrich_raises = (\<lambda>te. None) \<rparr>\<close>

definition no_result :: exec_result where
  "no_result = \<lparr> res_stdout = [], res_stderr = [], res_exit_code = 0, res_timed_out = False,
                 res_output = None, res_trace = [], res_input_history = [],
                 res_interactive = False \<rparr>"

definition exit_executors :: executors where
  "exit_executors = guest_executors (\<lambda>c. exit_guest) (\<lambda>c s. no_result)"

text \<open>The steps made, none when the method raised.\<close>

definition made_steps :: "py_exception + execution_step list \<Rightarrow> execution_step list" where
  "made_steps res = (case res of Inl e \<Rightarrow> [] | Inr ss \<Rightarrow> ss)"

text \<open>
  A guest of two lines, \<^verbatim>\<open>x = 1\<close> and \<^verbatim>\<open>raise SystemExit(1)\<close>: it prints nothing
  and ends the process with exit code 1.
\<close>

definition quiet_source :: string where
  "quiet_source = ''x = 1'' @ [newline] @ ''raise SystemExit(1)''"

definition quiet_guest :: guest where
  "quiet_guest = Line 1 [] (Line 2 [(''x'', JInt 1)] (Exit 1))"

definition quiet_executors :: executors where
  "quiet_executors = guest_executors (\<lambda>c. quiet_guest) (\<lambda>c s. no_result)"






text \<open>Notions used to state the properties of traces and steps.\<close>

definition line_entry :: "trace_entry \<Rightarrow> bool" where
  "line_entry te = (te_event te = Some ''line'' \<and> te_line te \<noteq> None)"

definition no_err :: "execution_step \<Rightarrow> bool" where
  "no_err s = (st_error (state s) = None)"


section \<open>Python syntax trees\<close>

text \<open>
  The part of Python's \<open>ast\<close> that the analyzers inspect.  \<open>Call f args kws\<close> has
  the positional arguments and the values of the keyword arguments; \<open>OtherExpr\<close> and
  \<open>OtherStmt\<close> stand for every other kind of node, with its child expressions and
  child statements in the order of \<open>ast.iter_child_nodes\<close>.  \<open>FunctionDef\<close> has the
  name, the argument names, the expressions of its header (defaults, annotations,
  decorators) and the body.  \<open>OtherExpr\<close> stands for kinds without a \<open>value\<close> field.
\<close>

datatype const = CNone | CBool bool | CInt int | CFloat real | CStr string | COther

datatype cmpop = Eq | NotEq | Lt | LtE | Gt | GtE | Is | IsNot | In | NotIn

datatype unaryop = Invert | UNot | UAdd | USub

datatype expr =
    Name string
  | Attribute expr string
  | Call expr "expr list" "expr list"
  | Constant const
  | Compare expr "cmpop list" "expr list"
  | Subscript expr expr
  | UnaryOp unaryop expr
  | OtherExpr "expr list"

datatype stmt =
    FunctionDef string "string list" "expr list" "stmt list"
  | For expr expr "stmt list" "stmt list"
  | While expr "stmt list" "stmt list"
  | If expr "stmt list" "stmt list"
  | Assign "expr list" expr
  | Expr expr
  | Return "expr option"
  | OtherStmt "expr list" "stmt list"

text \<open>\<open>c == k\<close> for a constant of the source and an integer.\<close>

fun const_eq_int :: "const \<Rightarrow> int \<Rightarrow> bool" where
  "const_eq_int (CBool b) k = ((if b then 1 else 0) = k)"
| "const_eq_int (CInt i) k = (i = k)"
| "const_eq_int (CFloat r) k = (r = of_int k)"
| "const_eq_int c k = False"

section \<open>\<open>BehaviorAnalyzer\<close> (\<open>operations/behavior_analyzer.py\<close>)\<close>

record name_hints =
  is_insert :: bool
  is_delete :: bool
  is_traverse :: bool
  is_front :: bool
  is_last :: bool
  is_getter :: bool
  is_init :: bool

text \<open>
  The \<open>behavior\<close> dictionary of a method, with the keys that the analysis writes or
  the classification reads.  \<open>traverses_to_end\<close> is added by the analysis and counts
  as false while absent; \<open>uses_peek\<close> and \<open>checks_empty\<close> are never set.
\<close>

record behavior =
  b_name :: string
  b_params :: "string list"
  behavior_type :: string
  has_loop :: bool
  has_print :: bool
  creates_new_node :: bool
  modifies_head :: bool
  modifies_count :: bool
  modifies_next_pointers :: bool
  checks_empty_list :: bool
  traverses_list :: bool
  finds_target :: bool
  traverses_to_end :: bool
  method_name_hints :: name_hints
  uses_append :: bool
  uses_pop :: bool
  uses_peek :: bool
  returns_size :: bool
  checks_empty :: bool
  uses_peek_back :: bool
  uses_peek_front :: bool
  uses_pop_0 :: bool
  uses_popleft :: bool
  is_graph_add_vertex :: bool
  is_graph_add_edge :: bool

text \<open>\<open>any(word in name_lower for word in words)\<close>\<close>

definition any_word_in :: "string list \<Rightarrow> string \<Rightarrow> bool" where
  "any_word_in words s = list_ex (\<lambda>w. str_contains s w) words"

text \<open>\<open>_get_method_name_hints\<close>\<close>

definition get_method_name_hints :: "string \<Rightarrow> name_hints" where
  "get_method_name_hints method_name =
     (let name_lower = lower method_name
      in \<lparr> is_insert = any_word_in [''insert'', ''add'', ''push'', ''append''] name_lower,
           is_delete = any_word_in [''delete'', ''remove'', ''pop'', ''del''] name_lower,
           is_traverse = any_word_in [''traverse'', ''print'', ''display'', ''show'', ''list'']
                           name_lower,
           is_front = any_word_in [''front'', ''first'', ''head'', ''begin''] name_lower,
           is_last = any_word_in [''last'', ''end'', ''tail'', ''back''] name_lower,
           is_getter = (startswith name_lower ''get''
                        \<or> name_lower \<in> set [''size'', ''length'', ''count'', ''empty'']),
           is_init = (method_name = ''__init__'') \<rparr>)"

text \<open>\<open>_is_empty_list_check\<close>, \<open>_is_target_finding\<close>, \<open>_is_tail_finding_loop\<close>, on the test.\<close>

fun is_empty_list_check :: "expr \<Rightarrow> bool" where
  "is_empty_list_check (Compare (Attribute v a) ops (Constant c # cs)) =
     (a = ''head'' \<and> c = CNone)"
| "is_empty_list_check test = False"

fun is_target_finding :: "expr \<Rightarrow> bool" where
  "is_target_finding (Compare (Attribute v a) ops cs) = (a \<in> set [''name'', ''data'', ''value''])"
| "is_target_finding test = False"

fun is_tail_finding_loop :: "expr \<Rightarrow> bool" where
  "is_tail_finding_loop (Compare (Attribute v a) (op # ops) (Constant c # cs)) =
     (a = ''next'' \<and> c = CNone \<and> (op = NotEq \<or> op = IsNot))"
| "is_tail_finding_loop test = False"

text \<open>\<open>_analyze_assignment\<close>: one target after the other.\<close>

fun analyze_target :: "expr \<Rightarrow> expr \<Rightarrow> behavior \<Rightarrow> behavior" where
  "analyze_target (Attribute v a) val b =
     (if a = ''head'' then b \<lparr> modifies_head := True \<rparr>
      else if a = ''count'' then b \<lparr> modifies_count := True \<rparr>
      else if a = ''next'' then b \<lparr> modifies_next_pointers := True \<rparr>
      else b)"
| "analyze_target (Name target_id) (Call (Name f) args kws) b =
     (if f \<in> set [''DataNode'', ''Node''] then b \<lparr> creates_new_node := True \<rparr> else b)"
| "analyze_target (Name target_id) (Call (Attribute v a) args kws) b =
     (if target_id \<in> set [''new_node'', ''node''] then b \<lparr> creates_new_node := True \<rparr> else b)"
| "analyze_target target val b = b"

definition analyze_assignment :: "expr list \<Rightarrow> expr \<Rightarrow> behavior \<Rightarrow> behavior" where
  "analyze_assignment targets val b = fold (\<lambda>t. analyze_target t val) targets b"

text \<open>
  An expression statement that is a call: the method called (\<open>func.attr\<close>), then
  \<open>print\<close> (\<open>func.id\<close>).
\<close>

fun analyze_call :: "expr \<Rightarrow> behavior \<Rightarrow> behavior" where
  "analyze_call (Call (Attribute v method_name) args kws) b =
     (if method_name = ''append'' then b \<lparr> uses_append := True \<rparr>
      else if method_name = ''pop'' then
        (case args of
           Constant c # rest \<Rightarrow>
             (if const_eq_int c 0 then b \<lparr> uses_pop := True, uses_pop_0 := True \<rparr>
              else b \<lparr> uses_pop := True \<rparr>)
         | _ \<Rightarrow> b \<lparr> uses_pop := True \<rparr>)
      else if method_name = ''popleft'' then b \<lparr> uses_popleft := True \<rparr>
      else if method_name = ''insert'' then b
      else if method_name = ''add_vertex'' then b \<lparr> is_graph_add_vertex := True \<rparr>
      else if method_name = ''add_edge'' then b \<lparr> is_graph_add_edge := True \<rparr>
      else b)"
| "analyze_call (Call (Name f) args kws) b =
     (if f = ''print'' then b \<lparr> has_print := True \<rparr> else b)"
| "analyze_call e b = b"

text \<open>
  A \<open>return\<close> statement.  The last block of the source reads \<open>slice.value\<close> whenever the
  slice has such a field; it is a node for an attribute or a subscript and a Python
  value for a constant.  There \<open>operand.value\<close> is read without a check, which raises
  \<open>AttributeError\<close> for an operand without that field.
\<close>

fun peek_of_slice :: "expr \<Rightarrow> behavior \<Rightarrow> behavior" where
  "peek_of_slice (UnaryOp USub (Constant c)) b =
     (if const_eq_int c 1 then b \<lparr> uses_peek_back := True \<rparr> else b)"
| "peek_of_slice (Constant c) b =
     (if const_eq_int c 0 then b \<lparr> uses_peek_front := True \<rparr> else b)"
| "peek_of_slice s b = b"

fun peek_of_slice_value :: "expr \<Rightarrow> behavior \<Rightarrow> py_exception + behavior" where
  "peek_of_slice_value (UnaryOp USub (Constant c)) b =
     Inr (if const_eq_int c 1 then b \<lparr> uses_peek_back := True \<rparr> else b)"
| "peek_of_slice_value (UnaryOp USub (Attribute v a)) b = Inr b"
| "peek_of_slice_value (UnaryOp USub (Subscript v s)) b = Inr b"
| "peek_of_slice_value (UnaryOp USub operand) b =
     Inl (AttributeError ''object has no attribute value'')"
| "peek_of_slice_value (Constant c) b =
     Inr (if const_eq_int c 0 then b \<lparr> uses_peek_front := True \<rparr> else b)"
| "peek_of_slice_value v b = Inr b"

fun analyze_return :: "expr option \<Rightarrow> behavior \<Rightarrow> py_exception + behavior" where
  "analyze_return (Some (Attribute v a)) b =
     Inr (if a = ''size'' then b \<lparr> returns_size := True \<rparr> else b)"
| "analyze_return (Some (Call (Name f) args kws)) b =
     Inr (if f = ''len'' then b \<lparr> returns_size := True \<rparr> else b)"
| "analyze_return (Some (Subscript base (Attribute v a))) b = peek_of_slice_value v b"
| "analyze_return (Some (Subscript base (Subscript v s))) b = peek_of_slice_value v b"
| "analyze_return (Some (Subscript base slice)) b = Inr (peek_of_slice slice b)"
| "analyze_return v b = Inr b"

text \<open>
  \<open>_analyze_statements\<close>: the statements of a body in order; the bodies of loops and
  both branches of conditionals are analysed in turn, other compound statements are
  not entered.
\<close>

fun analyze_statements :: "stmt list \<Rightarrow> behavior \<Rightarrow> py_exception + behavior"
  and analyze_statement :: "stmt \<Rightarrow> behavior \<Rightarrow> py_exception + behavior" where
  "analyze_statements [] b = Inr b"
| "analyze_statements (s # ss) b =
     (case analyze_statement s b of Inl e \<Rightarrow> Inl e | Inr b1 \<Rightarrow> analyze_statements ss b1)"
| "analyze_statement (While test body orelse) b =
     analyze_statements body
       (if is_tail_finding_loop test
        then b \<lparr> has_loop := True, traverses_list := True, traverses_to_end := True \<rparr>
        else b \<lparr> has_loop := True, traverses_list := True \<rparr>)"
| "analyze_statement (For target iter body orelse) b =
     analyze_statements body (b \<lparr> has_loop := True, traverses_list := True \<rparr>)"
| "analyze_statement (If test body orelse) b =
     (let b1 = (if is_empty_list_check test then b \<lparr> checks_empty_list := True \<rparr> else b);
          b2 = (if is_target_finding test then b1 \<lparr> finds_target := True \<rparr> else b1)
      in case analyze_statements body b2 of
           Inl e \<Rightarrow> Inl e
         | Inr b3 \<Rightarrow> analyze_statements orelse b3)"
| "analyze_statement (Assign targets val) b = Inr (analyze_assignment targets val b)"
| "analyze_statement (Expr e) b = Inr (analyze_call e b)"
| "analyze_statement (Return v) b = analyze_return v b"
| "analyze_statement (FunctionDef f args header body) b = Inr b"
| "analyze_statement (OtherStmt es ss) b = Inr b"

text \<open>
  \<open>_classify_behavior_by_logic\<close>.  The class body defines a method of this name twice;
  the second definition replaces the first, so it is the one that runs.
\<close>

definition classify_behavior_by_logic :: "behavior \<Rightarrow> string" where
  "classify_behavior_by_logic b =
     (let hints = method_name_hints b; name_lower = lower (b_name b)
      in if is_init hints then ''constructor''
         else if uses_append b then ''push''
         else if uses_pop b then ''pop''
         else if uses_peek b then ''stackTop''
         else if is_getter hints \<and> (returns_size b \<or> str_contains name_lower ''size'')
           then ''size''
         else if is_getter hints \<and> (checks_empty b \<or> str_contains name_lower ''empty'')
           then ''is_empty''
         else if has_print b \<and> \<not> creates_new_node b then ''printStack''
         else if uses_pop_0 b \<or> uses_popleft b then ''dequeue''
         else if uses_peek_front b then ''front''
         else if uses_peek_back b then ''back''
         else if is_insert hints then ''insert''
         else if is_delete hints then ''delete''
         else if is_traverse hints then
           (if str_contains name_lower ''pre'' then ''preorder''
            else if str_contains name_lower ''post'' then ''postorder''
            else ''inorder'')
         else if str_contains name_lower ''min'' then ''findMin''
         else if str_contains name_lower ''max'' then ''findMax''
         else if is_graph_add_vertex b \<or> str_contains name_lower ''add_vertex''
           then ''add_vertex''
         else if is_graph_add_edge b \<or> str_contains name_lower ''add_edge'' then ''add_edge''
         else if str_contains name_lower ''bfs'' then ''bfs''
         else if str_contains name_lower ''dfs'' then ''dfs''
         else if ((has_print b \<and> traverses_list b) \<or> is_traverse hints)
                 \<and> \<not> modifies_head b \<and> \<not> creates_new_node b then ''traverse''
         else if creates_new_node b \<and> has_loop b \<and> \<not> modifies_head b
                 \<and> modifies_next_pointers b then ''insert_last''
         else if creates_new_node b \<and> modifies_head b \<and> \<not> has_loop b then ''insert_front''
         else if creates_new_node b \<and> has_loop b \<and> finds_target b
                 \<and> modifies_next_pointers b then ''insert_before''
         else if creates_new_node b \<and> is_insert hints then
           (if is_front hints then ''insert_front''
            else if is_last hints then ''insert_last''
            else ''insert_front'')
         else if (finds_target b \<and> \<not> creates_new_node b
                  \<and> (modifies_head b \<or> modifies_next_pointers b)) \<or> is_delete hints
           then ''delete''
         else if is_getter hints \<or> (\<not> creates_new_node b \<and> \<not> modifies_head b
                  \<and> \<not> modifies_count b \<and> \<not> has_loop b) then ''getter''
         else ''unknown'')"

text \<open>
  The first definition of the same name, which the second one replaces: it is never
  called.  It decides the insert operations from the structure before any name hint.
\<close>

definition classify_behavior_by_logic_replaced :: "behavior \<Rightarrow> string" where
  "classify_behavior_by_logic_replaced b =
     (let hints = method_name_hints b
      in if is_init hints then ''constructor''
         else if ((has_print b \<and> traverses_list b) \<or> is_traverse hints)
                 \<and> \<not> modifies_head b \<and> \<not> creates_new_node b then ''traverse''
         else if creates_new_node b \<and> has_loop b \<and> \<not> modifies_head b
                 \<and> modifies_next_pointers b then ''insert_last''
         else if creates_new_node b \<and> modifies_head b \<and> \<not> has_loop b then ''insert_front''
         else if creates_new_node b \<and> has_loop b \<and> finds_target b
                 \<and> modifies_next_pointers b then ''insert_before''
         else if creates_new_node b \<and> is_insert hints then
           (if is_front hints then ''insert_front''
            else if is_last hints then ''insert_last''
            else if 2 \<le> length (b_params b) then ''insert_before''
            else ''insert_front'')
         else if (finds_target b \<and> \<not> creates_new_node b
                  \<and> (modifies_head b \<or> modifies_next_pointers b)) \<or> is_delete hints
           then ''delete''
         else if is_getter hints \<or> (\<not> creates_new_node b \<and> \<not> modifies_head b
                  \<and> \<not> modifies_count b \<and> \<not> has_loop b) then ''getter''
         else if is_traverse hints then ''traverse''
         else if is_insert hints then
           (if is_front hints then ''insert_front''
            else if is_last hints then ''insert_last''
            else ''insert_positional'')
         else if is_delete hints then ''delete''
         else ''unknown'')"

text \<open>The \<open>behavior\<close> dictionary that \<open>_analyze_method_behavior_from_ast\<close> starts from.\<close>

definition initial_behavior :: "string \<Rightarrow> string list \<Rightarrow> behavior" where
  "initial_behavior method_name args =
     \<lparr> b_name = method_name, b_params = drop 1 args, behavior_type = ''unknown'',
       has_loop = False, has_print = False, creates_new_node = False,
       modifies_head = False, modifies_count = False, modifies_next_pointers = False,
       checks_empty_list = False, traverses_list = False, finds_target = False,
       traverses_to_end = False, method_name_hints = get_method_name_hints method_name,
       uses_append = False, uses_pop = False, uses_peek = False, returns_size = False,
       checks_empty = False, uses_peek_back = False, uses_peek_front = False,
       uses_pop_0 = False, uses_popleft = False, is_graph_add_vertex = False,
       is_graph_add_edge = False \<rparr>"

text \<open>
  \<open>_analyze_method_behavior_from_ast\<close>, on the \<open>FunctionDef\<close> of a method.  An
  exception raised by the analysis of the body leaves the method.
\<close>

fun analyze_method_behavior_from_ast :: "stmt \<Rightarrow> py_exception + behavior" where
  "analyze_method_behavior_from_ast (FunctionDef method_name args header body) =
     (case analyze_statements body (initial_behavior method_name args) of
        Inl e \<Rightarrow> Inl e
      | Inr b \<Rightarrow> Inr (b \<lparr> behavior_type := classify_behavior_by_logic b \<rparr>))"
| "analyze_method_behavior_from_ast s = Inl (AttributeError ''object has no attribute name'')"

text \<open>The tag given to a method, when the analysis returned.\<close>

definition method_tag :: "stmt \<Rightarrow> string option" where
  "method_tag m = (case analyze_method_behavior_from_ast m of
                     Inl e \<Rightarrow> None | Inr b \<Rightarrow> Some (behavior_type b))"


text \<open>
  A method that appends at the end of a linked list:
  \<^verbatim>\<open>
  def insertLast(self, data):
      node = Node(data)
      cur = self.head
      while cur.next != None:
          cur = cur.next
      cur.next = node
  \<close>
\<close>

definition insertLast_body :: "stmt list" where
  "insertLast_body =
     [Assign [Name ''node''] (Call (Name ''Node'') [Name ''data''] []),
      Assign [Name ''cur''] (Attribute (Name ''self'') ''head''),
      While (Compare (Attribute (Name ''cur'') ''next'') [NotEq] [Constant CNone])
        [Assign [Name ''cur''] (Attribute (Name ''cur'') ''next'')] [],
      Assign [Attribute (Name ''cur'') ''next''] (Name ''node'')]"

definition insertLast_method :: stmt where
  "insertLast_method = FunctionDef ''insertLast'' [''self'', ''data''] [] insertLast_body"


section \<open>\<open>ComplexityAnalyzer\<close> (\<open>operations/complexity_analyzer.py\<close>)\<close>



text \<open>The \<open>nonlocal\<close> counters of \<open>count_loops\<close> inside \<open>_analyze_function\<close>.\<close>

record counters =
  c_loop_count :: nat
  c_max_nesting :: nat
  c_current_nesting :: nat
  c_has_recursion :: bool
  c_has_growing :: bool

text \<open>
  What \<open>count_loops\<close> does at a \<open>Call\<close> node before it descends: a call of the
  function's own name marks recursion, a call of \<open>append\<close>, \<open>extend\<close>, \<open>insert\<close> or
  \<open>add\<close> marks a growing structure.
\<close>

fun check_call :: "string \<Rightarrow> expr \<Rightarrow> counters \<Rightarrow> counters" where
  "check_call func_name (Name f) c =
     (if f = func_name then c \<lparr> c_has_recursion := True \<rparr> else c)"
| "check_call func_name (Attribute v a) c =
     (if a \<in> set [''append'', ''extend'', ''insert'', ''add'']
      then c \<lparr> c_has_growing := True \<rparr> else c)"
| "check_call func_name f c = c"


text \<open>
  \<^verbatim>\<open>
  if isinstance(n, (ast.For, ast.While)):
      loop_count += 1
      current_nesting = depth + 1
      max_nesting = max(max_nesting, current_nesting)
      for child in ast.iter_child_nodes(n): count_loops(child, depth + 1)
      return
  \<close>
\<close>

definition enter_loop :: "nat \<Rightarrow> counters \<Rightarrow> counters" where
  "enter_loop depth c =
     c \<lparr> c_loop_count := c_loop_count c + 1,
         c_current_nesting := depth + 1,
         c_max_nesting := max (c_max_nesting c) (depth + 1) \<rparr>"









section \<open>The safe serializer (\<open>safe_serialize\<close> in the trace wrapper)\<close>


































section \<open>Regular expressions (\<open>re.match\<close>) of the statement parsers\<close>

text \<open>
  The patterns of the parsers are sequences of literal characters and repetitions
  of one character class (\<open>\w+\<close>, \<open>\s*\<close>, \<open>.*?\<close>, \<open>.+\<close>), some of them captured as
  a group.  \<open>Rep cls least greedy grouped\<close> is such a repetition with at least
  \<open>least\<close> characters.  \<open>re.match\<close> matches at the start of the string, not
  necessarily to its end, and tries the repetitions by backtracking: the longest
  first for a greedy one, the shortest first for a lazy one.  \<open>rx_matches\<close> lists the
  groups of all successful matches in the order they are tried, so that the match
  \<open>re.match\<close> returns is the first.  \<open>\w\<close> and \<open>\s\<close> are the ASCII classes.
\<close>

datatype char_class = Word | Space | AnyChar

definition is_word_char :: "char \<Rightarrow> bool" where
  "is_word_char c =
     (let n = (of_char c :: nat)
      in (48 \<le> n \<and> n \<le> 57) \<or> (65 \<le> n \<and> n \<le> 90) \<or> (97 \<le> n \<and> n \<le> 122) \<or> n = 95)"

fun in_class :: "char_class \<Rightarrow> char \<Rightarrow> bool" where
  "in_class Word c = is_word_char c"
| "in_class Space c = is_space c"
| "in_class AnyChar c = (c \<noteq> newline)"

datatype rx_item = Lit char | Rep char_class nat bool bool

fun rx_matches :: "rx_item list \<Rightarrow> string \<Rightarrow> string list list" where
  "rx_matches [] s = [[]]"
| "rx_matches (Lit c # items) s =
     (case s of [] \<Rightarrow> [] | x # xs \<Rightarrow> if x = c then rx_matches items xs else [])"
| "rx_matches (Rep cls least greedy grouped # items) s =
     (let most = length (takeWhile (in_class cls) s);
          counts = (if greedy then rev [least ..< Suc most] else [least ..< Suc most])
      in concat (map (\<lambda>k. map (\<lambda>groups. if grouped then take k s # groups else groups)
                               (rx_matches items (drop k s)))
                     counts))"

definition re_match :: "rx_item list \<Rightarrow> string \<Rightarrow> string list option" where
  "re_match items s = (case rx_matches items s of [] \<Rightarrow> None | groups # others \<Rightarrow> Some groups)"

text \<open>\<open>(\w+)\<close>, \<open>\s*\<close> and \<open>(.*?)\<close>\<close>

definition rx_word :: rx_item where
  "rx_word = Rep Word 1 True True"

definition rx_spaces :: rx_item where
  "rx_spaces = Rep Space 0 True False"

definition rx_lazy_any :: rx_item where
  "rx_lazy_any = Rep AnyChar 0 False True"

section \<open>\<open>StackSimulator\<close> (\<open>stack_simulator.py\<close> and \<open>stack/\<close>)\<close>

text \<open>
  The values that the simulation stores in variables and on stacks: what
  \<open>_parse_parameter\<close> and the simulated functions return.  A float is kept as the
  text it was read from; \<open>SimDict\<close> is the dictionary that the simulated
  \<open>copyStack\<close> returns.
\<close>

datatype sim_value = SimInt int | SimFloat string | SimStr string | SimBool bool | SimDict

text \<open>
  The simulator context, as far as the stack simulation uses it: the instances (all
  of class \<open>ArrayStack\<close>, which is the only class the stack parser instantiates;
  \<open>max_size\<close> is never set) with their \<open>data\<close>, the variables, the simulated
  \<open>stdout\<close>, and \<open>classes["ArrayStack"]["methods"]\<close>, which is a list of names
  (\<open>None\<close> here) until \<open>parse_class_methods\<close> replaces it by a dictionary from
  method names to their analysis, of which the \<open>behavior_type\<close> is kept.
\<close>

record stack_context =
  sc_instances :: "(string \<times> sim_value list) list"
  sc_variables :: "(string \<times> sim_value) list"
  sc_stdout :: "string list"
  sc_methods :: "(string \<times> string) list option"

text \<open>
  What the simulation takes from outside the modelled code:
  \<^item> \<open>sh_int\<close>: \<open>int(s)\<close>, \<open>None\<close> when it raises \<open>ValueError\<close>;
  \<^item> \<open>sh_is_float\<close>: whether \<open>float(s)\<close> returns;
  \<^item> \<open>sh_str\<close>: \<open>str(v)\<close>; \<open>sh_str_list\<close>: \<open>str\<close> of a list of values;
  \<^item> \<open>sh_class_methods\<close>: what \<open>BehaviorAnalyzer.parse_class_methods(code)\<close>
    leaves in \<open>classes["ArrayStack"]["methods"]\<close> (it parses the code with
    \<open>ast.parse\<close> and catches every exception): the behaviour type of each method,
    or \<open>None\<close> when it leaves the list of names;
  \<^item> \<open>sh_parse_error\<close>: the \<open>ValueError\<close> that \<open>ASTParser.parse_code\<close> raises for a
    text that \<open>ast.parse\<close> rejects, as the message and the line number that the
    handler of \<open>execute_code\<close> reads from it; \<open>None\<close> when the text parses
    (\<open>ast.parse\<close> is taken to raise nothing but \<open>SyntaxError\<close> and \<open>ValueError\<close>);
  \<^item> \<open>sh_evaluate_print\<close>: the output that \<open>PrintHandler\<close> computes for the content
    of a \<open>print\<close> statement (it calls \<open>eval\<close>), with the context afterwards (a
    simulated \<open>pop\<close> inside the argument removes an element);
  \<^item> \<open>sh_error_text\<close>: the message that \<open>ErrorHandler.format_error\<close> makes of an
    exception.
\<close>

record stack_host =
  sh_int :: "string \<Rightarrow> int option"
  sh_is_float :: "string \<Rightarrow> bool"
  sh_str :: "sim_value \<Rightarrow> string"
  sh_str_list :: "sim_value list \<Rightarrow> string"
  sh_class_methods :: "string \<Rightarrow> (string \<times> string) list option"
  sh_parse_error :: "string \<Rightarrow> (string \<times> int) option"
  sh_evaluate_print :: "stack_context \<Rightarrow> string \<Rightarrow> string \<times> stack_context"
  sh_error_text :: "py_exception \<Rightarrow> string"

text \<open>
  \<open>StackSimulator._create_execution_step\<close> on a state made by
  \<open>_create_current_state\<close>: the \<open>stdout\<close> is a copy of the context's, and the
  \<open>error\<close> is the argument \<open>error\<close> or else the \<open>error\<close> of the step detail, when
  truthy.
\<close>

definition parser_step ::
  "int \<Rightarrow> int \<Rightarrow> string \<Rightarrow> stack_context \<Rightarrow> string option \<Rightarrow> bool \<Rightarrow> string option
     \<Rightarrow> execution_step" where
  "parser_step step_number line_number code0 ctx err is_print out =
     \<lparr> stepNumber = step_number, line = line_number, code = code0,
       state = \<lparr> st_error = (case err of None \<Rightarrow> None
                              | Some e \<Rightarrow> if e \<noteq> [] then Some e else None),
                 st_stdout = Some (StdoutList (sc_stdout ctx)),
                 st_waiting_for_input = False,
                 st_detail_print = is_print, st_detail_output = out \<rparr> \<rparr>"

text \<open>
  The list \<open>steps\<close> of \<open>execute_code\<close> holds steps of its own and steps taken from
  \<open>execution_steps\<close>, which it goes on changing in place; the latter are kept by their
  index in \<open>execution_steps\<close>.
\<close>

datatype step_ref = Own execution_step | Shared nat

definition resolve :: "execution_step list \<Rightarrow> step_ref \<Rightarrow> execution_step" where
  "resolve execution_steps r = (case r of Own s \<Rightarrow> s | Shared i \<Rightarrow> execution_steps ! i)"

text \<open>\<open>_is_string_literal\<close>-style test and \<open>params[1:-1]\<close>\<close>

definition quoted :: "string \<Rightarrow> bool" where
  "quoted s = ((startswith s [dquote] \<and> endswith s [dquote])
               \<or> (startswith s [CHR 0x27] \<and> endswith s [CHR 0x27]))"

definition unquote :: "string \<Rightarrow> string" where
  "unquote s = butlast (tl s)"

text \<open>\<open>StackMethodExecutor._parse_parameter\<close>\<close>

definition parse_parameter :: "stack_host \<Rightarrow> stack_context \<Rightarrow> string \<Rightarrow> sim_value" where
  "parse_parameter host ctx params0 =
     (let params = strip params0
      in if quoted params then SimStr (unquote params)
         else
           (case (if CHR ''.'' \<in> set params
                  then (if sh_is_float host params then Some (SimFloat params) else None)
                  else map_option SimInt (sh_int host params)) of
              Some v \<Rightarrow> v
            | None \<Rightarrow>
                (case map_of (sc_variables ctx) params of
                   Some v \<Rightarrow> v
                 | None \<Rightarrow> SimStr params)))"

text \<open>
  The operations of \<open>StackNodeManager\<close> on the \<open>data\<close> of an instance.  Of the
  dictionary each returns, the model keeps the \<open>error\<close>, the \<open>stdout\<close> (only
  \<open>stack_print\<close> has one) and the \<open>value\<close> when \<open>stack_pop\<close> found one.
\<close>

record method_result =
  mr_error :: "string option"
  mr_stdout :: "string option"
  mr_value :: "sim_value option"

definition plain_result :: method_result where
  "plain_result = \<lparr> mr_error = None, mr_stdout = None, mr_value = None \<rparr>"

datatype stack_op = OpPush | OpPop | OpSize | OpIsEmpty | OpTop | OpPrint

text \<open>\<open>behavior_map\<close> and \<open>method_map\<close> of \<open>execute_method\<close>\<close>

definition behavior_map :: "(string \<times> stack_op) list" where
  "behavior_map = [(''push'', OpPush), (''pop'', OpPop), (''size'', OpSize),
     (''handler_size'', OpSize), (''is_empty'', OpIsEmpty), (''stackTop'', OpTop),
     (''peek'', OpTop), (''printStack'', OpPrint), (''print'', OpPrint)]"

definition method_map :: "(string \<times> stack_op) list" where
  "method_map = [(''push'', OpPush), (''add'', OpPush), (''insert'', OpPush),
     (''pop'', OpPop), (''remove'', OpPop), (''delete'', OpPop),
     (''size'', OpSize), (''get_size'', OpSize), (''count'', OpSize), (''length'', OpSize),
     (''__len__'', OpSize),
     (''is_empty'', OpIsEmpty), (''empty'', OpIsEmpty), (''isempty'', OpIsEmpty),
     (''stackTop'', OpTop), (''get_stack_top'', OpTop), (''peek'', OpTop), (''top'', OpTop),
     (''get_top'', OpTop),
     (''printStack'', OpPrint), (''print_stack'', OpPrint), (''display'', OpPrint),
     (''show'', OpPrint), (''__str__'', OpPrint), (''__repr__'', OpPrint)]"

definition set_instance :: "string \<Rightarrow> sim_value list \<Rightarrow> stack_context \<Rightarrow> stack_context" where
  "set_instance name data ctx = ctx \<lparr> sc_instances := dict_set name data (sc_instances ctx) \<rparr>"

text \<open>\<open>stack_pop\<close>, which the assignment \<open>x = s.pop()\<close> calls directly\<close>

definition stack_pop ::
  "string \<Rightarrow> sim_value list \<Rightarrow> stack_context \<Rightarrow> method_result \<times> stack_context" where
  "stack_pop instance_name data ctx =
     (if data = [] then (plain_result \<lparr> mr_error := Some ''underflow'' \<rparr>, ctx)
      else (plain_result \<lparr> mr_value := Some (last data) \<rparr>,
            set_instance instance_name (butlast data) ctx))"

definition run_stack_op ::
  "stack_host \<Rightarrow> stack_op \<Rightarrow> string \<Rightarrow> sim_value list \<Rightarrow> string \<Rightarrow> stack_context
     \<Rightarrow> method_result \<times> stack_context" where
  "run_stack_op host op instance_name data params ctx =
     (case op of
        OpPush \<Rightarrow>
          (if params \<noteq> []
           then (plain_result,
                 set_instance instance_name (data @ [parse_parameter host ctx params]) ctx)
           else (plain_result \<lparr> mr_error := Some ''missing_parameter'' \<rparr>, ctx))
      | OpPop \<Rightarrow> stack_pop instance_name data ctx
      | OpSize \<Rightarrow> (plain_result, ctx)
      | OpIsEmpty \<Rightarrow> (plain_result, ctx)
      | OpTop \<Rightarrow>
          (if data = [] then (plain_result \<lparr> mr_error := Some ''empty_stack'' \<rparr>, ctx)
           else (plain_result, ctx))
      | OpPrint \<Rightarrow>
          (plain_result \<lparr> mr_stdout := Some (sh_str_list host data) \<rparr>,
           ctx \<lparr> sc_stdout := sc_stdout ctx @ [sh_str_list host data] \<rparr>))"

text \<open>
  \<open>StackMethodExecutor.execute_method\<close>: the behaviour type of the method, when the
  class analysis stored one that \<open>behavior_map\<close> knows, else the method name.
\<close>

definition execute_method ::
  "stack_host \<Rightarrow> string \<Rightarrow> sim_value list \<Rightarrow> string \<Rightarrow> string \<Rightarrow> stack_context
     \<Rightarrow> method_result \<times> stack_context" where
  "execute_method host instance_name data method_name params ctx =
     (let by_behavior =
            (case sc_methods ctx of
               None \<Rightarrow> None
             | Some methods \<Rightarrow>
                 (case map_of methods method_name of
                    None \<Rightarrow> None
                  | Some behavior \<Rightarrow> map_of behavior_map behavior))
      in case by_behavior of
           Some op \<Rightarrow> run_stack_op host op instance_name data params ctx
         | None \<Rightarrow>
             (case map_of method_map method_name of
                Some op \<Rightarrow> run_stack_op host op instance_name data params ctx
              | None \<Rightarrow> (plain_result \<lparr> mr_error := Some ''unknown_method'' \<rparr>, ctx)))"

text \<open>
  \<open>StackFunctionHandler\<close>.  \<open>args.strip().strip('"\'')\<close>, then the variable of that
  name if there is one.
\<close>

definition is_quote :: "char \<Rightarrow> bool" where
  "is_quote c = (c = dquote \<or> c = CHR 0x27)"

definition strip_quotes :: "string \<Rightarrow> string" where
  "strip_quotes s = rev (dropWhile is_quote (rev (dropWhile is_quote s)))"

definition function_argument :: "stack_context \<Rightarrow> string \<Rightarrow> sim_value" where
  "function_argument ctx args =
     (let arg = strip_quotes (strip args)
      in case map_of (sc_variables ctx) arg of Some v \<Rightarrow> v | None \<Rightarrow> SimStr arg)"

text \<open>
  \<^verbatim>\<open>
  stack_count = 0
  for char in arg:
      if char == '(': stack_count += 1
      elif char == ')':
          if stack_count > 0: stack_count -= 1
          else: stack_count += 1
  \<close>
\<close>

fun count_parentheses :: "string \<Rightarrow> nat \<Rightarrow> nat" where
  "count_parentheses [] stack_count = stack_count"
| "count_parentheses (c # cs) stack_count =
     (if c = CHR ''('' then count_parentheses cs (stack_count + 1)
      else if c = CHR '')'' then
        (if 0 < stack_count then count_parentheses cs (stack_count - 1)
         else count_parentheses cs (stack_count + 1))
      else count_parentheses cs stack_count)"

text \<open>
  \<open>_handle_parentheses_matching\<close>.  The loop iterates over the argument: a string
  gives its characters, the dictionary its keys (none of them a parenthesis), and a
  number or a truth value raises \<open>TypeError\<close>.
\<close>

definition not_iterable :: "string \<Rightarrow> py_exception" where
  "not_iterable type_name0 =
     TypeError ([CHR 0x27] @ type_name0 @ [CHR 0x27] @ '' object is not iterable'')"

definition handle_parentheses_matching ::
  "stack_host \<Rightarrow> stack_context \<Rightarrow> string \<Rightarrow> py_exception + (bool \<times> stack_context)" where
  "handle_parentheses_matching host ctx args =
     (case function_argument ctx args of
        SimStr s \<Rightarrow>
          (if count_parentheses s 0 = 0 then Inr (True, ctx)
           else Inr (False, ctx \<lparr> sc_stdout := sc_stdout ctx
                                   @ [''Parentheses in '' @ s @ '' are unmatched''] \<rparr>))
      | SimDict \<Rightarrow> Inr (True, ctx)
      | SimInt i \<Rightarrow> Inl (not_iterable ''int'')
      | SimFloat f \<Rightarrow> Inl (not_iterable ''float'')
      | SimBool b \<Rightarrow> Inl (not_iterable ''bool''))"

text \<open>
  \<open>simulate_copy_stack\<close> for two existing instances, and \<open>_handle_copy_stack_call\<close>.
\<close>

definition copy_stack_args :: "stack_context \<Rightarrow> string \<Rightarrow> (string \<times> string) option" where
  "copy_stack_args ctx args =
     (case map strip (split args '','') of
        [s1_name, s2_name] \<Rightarrow>
          (if map_of (sc_instances ctx) s1_name \<noteq> None \<and> map_of (sc_instances ctx) s2_name \<noteq> None
           then Some (s1_name, s2_name) else None)
      | _ \<Rightarrow> None)"

definition simulate_copy_stack :: "string \<Rightarrow> string \<Rightarrow> stack_context \<Rightarrow> stack_context" where
  "simulate_copy_stack s1_name s2_name ctx =
     (case map_of (sc_instances ctx) s1_name of
        Some data \<Rightarrow> set_instance s2_name data ctx
      | None \<Rightarrow> ctx)"

text \<open>
  \<open>simulate_function_call\<close>: the value returned (\<open>None\<close> for a function that is not
  simulated, and for \<open>copyStack\<close> on anything but two instances) and the context.
\<close>

definition simulate_function_call ::
  "stack_host \<Rightarrow> stack_context \<Rightarrow> string \<Rightarrow> string
     \<Rightarrow> py_exception + (sim_value option \<times> stack_context)" where
  "simulate_function_call host ctx func_name args =
     (if func_name = ''is_parentheses_matching'' then
        (case handle_parentheses_matching host ctx args of
           Inl e \<Rightarrow> Inl e
         | Inr (b, ctx1) \<Rightarrow> Inr (Some (SimBool b), ctx1))
      else if func_name = ''infixToPostfix'' then
        Inr (Some (SimStr ((case function_argument ctx args of
                              SimStr s \<Rightarrow> s | v \<Rightarrow> sh_str host v) @ ''_postfix'')), ctx)
      else if func_name = ''copyStack'' then
        (case copy_stack_args ctx args of
           Some (s1_name, s2_name) \<Rightarrow> Inr (Some SimDict, simulate_copy_stack s1_name s2_name ctx)
         | None \<Rightarrow> Inr (None, ctx))
      else Inr (None, ctx))"

text \<open>
  \<open>StackStatementParser\<close>.  Each handler appends at most one step, numbered
  \<open>step_number\<close>, and says whether it handled the statement.  The result of a
  handler is the exception it raised, if any, whether it handled the statement, and
  the context and the list of steps as it leaves them.
\<close>

type_synonym parse_state = "stack_context \<times> step_ref list"

type_synonym parse_result = "py_exception option \<times> bool \<times> parse_state"

definition not_handled :: "parse_state \<Rightarrow> parse_result" where
  "not_handled ps = (None, False, ps)"

definition handled ::
  "int \<Rightarrow> int \<Rightarrow> string \<Rightarrow> stack_context \<Rightarrow> string option \<Rightarrow> bool \<Rightarrow> string option
     \<Rightarrow> step_ref list \<Rightarrow> parse_result" where
  "handled step_number line_number l ctx err is_print out steps0 =
     (None, True, (ctx, steps0 @ [Own (parser_step step_number line_number l ctx err is_print out)]))"

text \<open>\<open>_handle_class_instantiation\<close>: \<^verbatim>\<open>(\w+)\s*=\s*(\w+)\s*\(\s*\)\<close>\<close>

definition handle_class_instantiation :: "string \<Rightarrow> int \<Rightarrow> int \<Rightarrow> parse_state \<Rightarrow> parse_result" where
  "handle_class_instantiation l line_number step_number ps =
     (case re_match [rx_word, rx_spaces, Lit CHR ''='', rx_spaces, rx_word, rx_spaces,
                     Lit CHR ''('', rx_spaces, Lit CHR '')''] l of
        Some [var_name, class_name] \<Rightarrow>
          (if class_name = ''ArrayStack''
           then handled step_number line_number l (set_instance var_name [] (fst ps))
                  None False None (snd ps)
           else not_handled ps)
      | _ \<Rightarrow> not_handled ps)"

text \<open>
  \<open>_handle_method_calls\<close>: \<^verbatim>\<open>(\w+)\.(\w+)\s*\((.*?)\)\<close>.  For \<open>printStack\<close> with a
  \<open>stdout\<close> in the result the step detail is a \<open>print\<close> with that output.
\<close>

definition handle_method_calls ::
  "stack_host \<Rightarrow> string \<Rightarrow> int \<Rightarrow> int \<Rightarrow> parse_state \<Rightarrow> parse_result" where
  "handle_method_calls host l line_number step_number ps =
     (case re_match [rx_word, Lit CHR ''.'', rx_word, rx_spaces, Lit CHR ''('', rx_lazy_any,
                     Lit CHR '')''] l of
        Some [instance_name, method_name, params] \<Rightarrow>
          (case map_of (sc_instances (fst ps)) instance_name of
             Some data \<Rightarrow>
               (case execute_method host instance_name data method_name (strip params) (fst ps) of
                  (result, ctx1) \<Rightarrow>
                    (if method_name = ''printStack'' \<and> mr_stdout result \<noteq> None
                     then handled step_number line_number l ctx1 None True (mr_stdout result)
                            (snd ps)
                     else handled step_number line_number l ctx1 (mr_error result) False None
                            (snd ps)))
           | None \<Rightarrow> not_handled ps)
      | _ \<Rightarrow> not_handled ps)"

text \<open>\<open>_handle_assignment_from_method\<close>: \<^verbatim>\<open>(\w+)\s*=\s*(\w+)\.(\w+)\s*\((.*?)\)\<close>\<close>

definition handle_assignment_from_method ::
  "string \<Rightarrow> int \<Rightarrow> int \<Rightarrow> parse_state \<Rightarrow> parse_result" where
  "handle_assignment_from_method l line_number step_number ps =
     (case re_match [rx_word, rx_spaces, Lit CHR ''='', rx_spaces, rx_word, Lit CHR ''.'',
                     rx_word, rx_spaces, Lit CHR ''('', rx_lazy_any, Lit CHR '')''] l of
        Some [var_name, instance_name, method_name, params] \<Rightarrow>
          (case map_of (sc_instances (fst ps)) instance_name of
             Some data \<Rightarrow>
               (if method_name = ''pop'' then
                  (case stack_pop instance_name data (fst ps) of
                     (result, ctx1) \<Rightarrow>
                       handled step_number line_number l
                         (case mr_value result of
                            None \<Rightarrow> ctx1
                          | Some v \<Rightarrow>
                              ctx1 \<lparr> sc_variables := dict_set var_name v (sc_variables ctx1) \<rparr>)
                         (mr_error result) False None (snd ps))
                else not_handled ps)
           | None \<Rightarrow> not_handled ps)
      | _ \<Rightarrow> not_handled ps)"

text \<open>
  \<open>_handle_simple_assignment\<close>: \<^verbatim>\<open>(\w+)\s*=\s*(.+)\<close> on a line without \<open>.\<close> and
  \<open>(\<close>, for a string literal.
\<close>

definition handle_simple_assignment ::
  "string \<Rightarrow> int \<Rightarrow> int \<Rightarrow> parse_state \<Rightarrow> parse_result" where
  "handle_simple_assignment l line_number step_number ps =
     (case re_match [rx_word, rx_spaces, Lit CHR ''='', rx_spaces, Rep AnyChar 1 True True] l of
        Some [var_name, value_text] \<Rightarrow>
          (if CHR ''.'' \<notin> set l \<and> CHR ''('' \<notin> set l \<and> quoted (strip value_text)
           then handled step_number line_number l
                  ((fst ps) \<lparr> sc_variables :=
                       dict_set var_name (SimStr (unquote (strip value_text)))
                         (sc_variables (fst ps)) \<rparr>)
                  None False None (snd ps)
           else not_handled ps)
      | _ \<Rightarrow> not_handled ps)"

text \<open>
  \<open>_handle_function_calls\<close>: first \<^verbatim>\<open>(\w+)\s*=\s*(\w+)\((.*?)\)\<close>, then
  \<^verbatim>\<open>(\w+)\((.*?)\)\<close>.  An exception of the simulated function leaves the handler.
\<close>

definition direct_function_call ::
  "stack_host \<Rightarrow> string \<Rightarrow> int \<Rightarrow> int \<Rightarrow> parse_state \<Rightarrow> parse_result" where
  "direct_function_call host l line_number step_number ps =
     (case re_match [rx_word, Lit CHR ''('', rx_lazy_any, Lit CHR '')''] l of
        Some [func_name, args] \<Rightarrow>
          (if func_name = ''print'' then not_handled ps
           else
             (case (if func_name = ''copyStack'' then copy_stack_args (fst ps) args else None) of
                Some (s1_name, s2_name) \<Rightarrow>
                  handled step_number line_number l
                    (simulate_copy_stack s1_name s2_name (fst ps)) None False None (snd ps)
              | None \<Rightarrow>
                  (case simulate_function_call host (fst ps) func_name args of
                     Inl e \<Rightarrow> (Some e, False, ps)
                   | Inr (result, ctx1) \<Rightarrow>
                       handled step_number line_number l ctx1 None False None (snd ps))))
      | _ \<Rightarrow> not_handled ps)"

definition handle_function_calls ::
  "stack_host \<Rightarrow> string \<Rightarrow> int \<Rightarrow> int \<Rightarrow> parse_state \<Rightarrow> parse_result" where
  "handle_function_calls host l line_number step_number ps =
     (case re_match [rx_word, rx_spaces, Lit CHR ''='', rx_spaces, rx_word, Lit CHR ''('',
                     rx_lazy_any, Lit CHR '')''] l of
        Some [var_name, func_name, args] \<Rightarrow>
          (case simulate_function_call host (fst ps) func_name args of
             Inl e \<Rightarrow> (Some e, False, ps)
           | Inr (Some v, ctx1) \<Rightarrow>
               handled step_number line_number l
                 (ctx1 \<lparr> sc_variables := dict_set var_name v (sc_variables ctx1) \<rparr>)
                 None False None (snd ps)
           | Inr (None, ctx1) \<Rightarrow>
               direct_function_call host l line_number step_number (ctx1, snd ps))
      | _ \<Rightarrow> direct_function_call host l line_number step_number ps)"

text \<open>
  \<open>PrintHandler.handle_print_statement\<close>: \<^verbatim>\<open>print\((.*)\)\<close>; the output is added to
  the simulated \<open>stdout\<close> and becomes the \<open>output\<close> of a \<open>print\<close> step.
\<close>

definition handle_print_statement ::
  "stack_host \<Rightarrow> string \<Rightarrow> int \<Rightarrow> int \<Rightarrow> parse_state \<Rightarrow> parse_result" where
  "handle_print_statement host l line_number step_number ps =
     (case re_match [Lit CHR ''p'', Lit CHR ''r'', Lit CHR ''i'', Lit CHR ''n'', Lit CHR ''t'',
                     Lit CHR ''('', Rep AnyChar 0 True True, Lit CHR '')''] l of
        Some [content] \<Rightarrow>
          (case sh_evaluate_print host (fst ps) (strip content) of
             (output_value, ctx1) \<Rightarrow>
               handled step_number line_number l
                 (ctx1 \<lparr> sc_stdout := sc_stdout ctx1 @ [output_value] \<rparr>)
                 None True (Some output_value) (snd ps))
      | _ \<Rightarrow> not_handled ps)"

text \<open>\<open>execute_single_statement\<close>: the handlers in turn, until one handles or raises.\<close>

definition or_else :: "parse_result \<Rightarrow> (parse_state \<Rightarrow> parse_result) \<Rightarrow> parse_result" where
  "or_else r next_handler =
     (case r of
        (Some e, h, ps) \<Rightarrow> r
      | (None, True, ps) \<Rightarrow> r
      | (None, False, ps) \<Rightarrow> next_handler ps)"

definition execute_single_statement ::
  "stack_host \<Rightarrow> string \<Rightarrow> int \<Rightarrow> int \<Rightarrow> parse_state \<Rightarrow> parse_result" where
  "execute_single_statement host l line_number step_number ps =
     or_else (or_else (or_else (or_else (or_else
       (handle_class_instantiation l line_number step_number ps)
       (handle_method_calls host l line_number step_number))
       (handle_assignment_from_method l line_number step_number))
       (handle_simple_assignment l line_number step_number))
       (handle_function_calls host l line_number step_number))
       (handle_print_statement host l line_number step_number)"

text \<open>
  \<open>EnhancedStackOperationParser\<close>.
  \<^verbatim>\<open>
  def _handle_multiple_statements(self, line, line_number, step_number, steps, create_step_func):
      statements = [stmt.strip() for stmt in line.split(';') if stmt.strip()]
      handled_any = False
      current_step = step_number
      for stmt in statements:
          if self.statement_parser.execute_single_statement(
                  stmt, line_number, current_step, steps, create_step_func):
              handled_any = True
              current_step += 1
      return handled_any
  \<close>
\<close>

fun handle_multiple_statements ::
  "stack_host \<Rightarrow> string list \<Rightarrow> int \<Rightarrow> int \<Rightarrow> bool \<Rightarrow> parse_state \<Rightarrow> parse_result" where
  "handle_multiple_statements host [] line_number current_step handled_any ps =
     (None, handled_any, ps)"
| "handle_multiple_statements host (stmt # stmts) line_number current_step handled_any ps =
     (case execute_single_statement host stmt line_number current_step ps of
        (Some e, h, ps1) \<Rightarrow> (Some e, False, ps1)
      | (None, True, ps1) \<Rightarrow>
          handle_multiple_statements host stmts line_number (current_step + 1) True ps1
      | (None, False, ps1) \<Rightarrow>
          handle_multiple_statements host stmts line_number current_step handled_any ps1)"

definition parse_and_execute ::
  "stack_host \<Rightarrow> string \<Rightarrow> int \<Rightarrow> int \<Rightarrow> parse_state \<Rightarrow> parse_result" where
  "parse_and_execute host l line_number step_number ps =
     (if CHR '';'' \<in> set l
      then handle_multiple_statements host
             (filter (\<lambda>stmt. stmt \<noteq> []) (map strip (split l '';'')))
             line_number step_number False ps
      else execute_single_statement host l line_number step_number ps)"

text \<open>
  \<open>FunctionDefinitionTracker.update_state\<close> (the class at the end of
  \<open>stack_simulator.py\<close>), on a line that is not blank: the new state and whether the
  line is skipped.
\<close>

record tracker_state =
  in_function_def :: bool
  function_indent_level :: nat

definition indent_of :: "string \<Rightarrow> nat" where
  "indent_of original_line = length (takeWhile is_space original_line)"

definition update_state :: "string \<Rightarrow> string \<Rightarrow> tracker_state \<Rightarrow> tracker_state \<times> bool" where
  "update_state original_line stripped_line tr =
     (if startswith stripped_line ''def ''
      then (\<lparr> in_function_def = True, function_indent_level = indent_of original_line \<rparr>, True)
      else if in_function_def tr then
        (if indent_of original_line \<le> function_indent_level tr \<and> stripped_line \<noteq> []
         then (tr \<lparr> in_function_def := False \<rparr>, False)
         else (tr, True))
      else (tr, False))"

text \<open>The variables of the loop of \<open>execute_code\<close> over the lines of the code.\<close>

record stack_loop_state =
  sl_steps :: "step_ref list"
  sl_step_number :: int
  sl_context :: stack_context
  sl_tracker :: tracker_state
  sl_accumulated_stdout :: "string list"
  sl_last_processed_line :: int
  sl_execution_steps :: "execution_step list"

text \<open>Truth value of \<open>step_detail.get("output")\<close>, and of the test for a print step.\<close>

definition has_output :: "execution_step \<Rightarrow> bool" where
  "has_output s = (case st_detail_output (state s) of None \<Rightarrow> False | Some out \<Rightarrow> out \<noteq> [])"

definition print_or_output :: "execution_step \<Rightarrow> bool" where
  "print_or_output s = (st_detail_print (state s) \<or> has_output s)"

text \<open>
  \<^verbatim>\<open>
  for s in execution_steps:
      if last_processed_line < s.line < line_number:
          out = s.state.get("step_detail", {}).get("output")
          if out and out not in accumulated_stdout:
              accumulated_stdout.append(out)
              self.context["stdout"] = list(accumulated_stdout)
  \<close>
\<close>

fun skipped_outputs ::
  "int \<Rightarrow> int \<Rightarrow> execution_step list \<Rightarrow> string list \<times> stack_context
     \<Rightarrow> string list \<times> stack_context" where
  "skipped_outputs lo hi [] acc = acc"
| "skipped_outputs lo hi (s # ss) (accumulated_stdout, ctx) =
     (if lo < line s \<and> line s < hi \<and> has_output s
         \<and> the (st_detail_output (state s)) \<notin> set accumulated_stdout
      then skipped_outputs lo hi ss
             (accumulated_stdout @ [the (st_detail_output (state s))],
              ctx \<lparr> sc_stdout := accumulated_stdout @ [the (st_detail_output (state s))] \<rparr>)
      else skipped_outputs lo hi ss (accumulated_stdout, ctx))"

text \<open>
  The execution step that stands for a \<open>print\<close> line, by its index: the first one on
  that line that is a print step or has output, or else the one that comes next in
  the order of such steps, counting those already in \<open>steps\<close>.
\<close>

definition step_for_print_line ::
  "execution_step list \<Rightarrow> step_ref list \<Rightarrow> int \<Rightarrow> nat option" where
  "step_for_print_line execution_steps steps0 line_number =
     (case filter (\<lambda>i. line (execution_steps ! i) = line_number
                        \<and> print_or_output (execution_steps ! i))
                  [0 ..< length execution_steps] of
        i # others \<Rightarrow> Some i
      | [] \<Rightarrow>
          (let print_steps0 = filter (\<lambda>i. print_or_output (execution_steps ! i))
                                [0 ..< length execution_steps];
               print_count_before =
                 length (filter (\<lambda>r. print_or_output (resolve execution_steps r)) steps0)
           in if print_count_before < length print_steps0
              then Some (print_steps0 ! print_count_before) else None))"

text \<open>
  One line of the loop, after the tests that skip it: the branch for a \<open>print\<close> line
  with an execution step that has output, else the operation parser inside
  \<^verbatim>\<open>
  try:
      if operation_parser.parse_and_execute(...): step_number += 1
  except Exception as e:
      steps.append(self._create_execution_step(step_number, line_number, stripped_line,
                                               error=str(e)))
      raise e
  \<close>
  The result is the exception that leaves the loop, if any, and the variables.
\<close>

definition parse_line ::
  "stack_host \<Rightarrow> string \<Rightarrow> int \<Rightarrow> stack_loop_state \<Rightarrow> py_exception option \<times> stack_loop_state" where
  "parse_line host stripped_line line_number sl =
     (case parse_and_execute host stripped_line line_number (sl_step_number sl)
             (sl_context sl, sl_steps sl) of
        (None, h, (ctx1, steps1)) \<Rightarrow>
          (None, sl \<lparr> sl_context := ctx1, sl_steps := steps1,
                      sl_step_number := (if h then sl_step_number sl + 1
                                         else sl_step_number sl) \<rparr>)
      | (Some e, h, (ctx1, steps1)) \<Rightarrow>
          (Some e,
           sl \<lparr> sl_context := ctx1,
                sl_steps := steps1 @ [Own (parser_step (sl_step_number sl) line_number
                                            stripped_line ctx1 (Some (exception_str e))
                                            False None)] \<rparr>))"

definition process_line ::
  "stack_host \<Rightarrow> string \<Rightarrow> int \<Rightarrow> stack_loop_state \<Rightarrow> py_exception option \<times> stack_loop_state" where
  "process_line host stripped_line line_number sl =
     (let is_print_statement = (startswith stripped_line ''print(''
                                \<or> str_contains stripped_line ''print('');
          execution_step_for_line =
            (if is_print_statement \<and> sl_execution_steps sl \<noteq> []
             then step_for_print_line (sl_execution_steps sl) (sl_steps sl) line_number
             else None)
      in case execution_step_for_line of
           Some i \<Rightarrow>
             (if has_output (sl_execution_steps sl ! i) then
                (let actual_output = the (st_detail_output (state (sl_execution_steps sl ! i)));
                     accumulated_stdout = sl_accumulated_stdout sl @ [actual_output];
                     s = sl_execution_steps sl ! i
                 in (None,
                     sl \<lparr> sl_accumulated_stdout := accumulated_stdout,
                          sl_context := (sl_context sl) \<lparr> sc_stdout := accumulated_stdout \<rparr>,
                          sl_execution_steps := (sl_execution_steps sl)
                            [i := s \<lparr> state := (state s)
                                      \<lparr> st_stdout := Some (StdoutList accumulated_stdout) \<rparr> \<rparr>],
                          sl_steps := sl_steps sl @ [Shared i],
                          sl_step_number := sl_step_number sl + 1 \<rparr>))
              else parse_line host stripped_line line_number sl)
         | None \<Rightarrow> parse_line host stripped_line line_number sl)"

text \<open>
  The loop \<open>for line_number, line in enumerate(lines, 1)\<close>; it ends at the first
  exception.
\<close>

fun stack_loop ::
  "stack_host \<Rightarrow> string list \<Rightarrow> int \<Rightarrow> stack_loop_state \<Rightarrow> py_exception option \<times> stack_loop_state" where
  "stack_loop host [] line_number sl = (None, sl)"
| "stack_loop host (original_line # rest) line_number sl =
     (let stripped_line = strip original_line
      in if stripped_line = [] \<or> startswith stripped_line ''#''
         then stack_loop host rest (line_number + 1) sl
         else
           (case update_state original_line stripped_line (sl_tracker sl) of
              (tr, True) \<Rightarrow> stack_loop host rest (line_number + 1) (sl \<lparr> sl_tracker := tr \<rparr>)
            | (tr, False) \<Rightarrow>
                (case skipped_outputs (sl_last_processed_line sl) line_number
                        (sl_execution_steps sl) (sl_accumulated_stdout sl, sl_context sl) of
                   (accumulated_stdout, ctx1) \<Rightarrow>
                     (let sl1 = sl \<lparr> sl_tracker := tr, sl_accumulated_stdout := accumulated_stdout,
                                     sl_context := ctx1 \<rparr>
                      in if startswith stripped_line ''class ''
                         then stack_loop host rest (line_number + 1) sl1
                         else
                           (case process_line host stripped_line line_number sl1 of
                              (Some e, sl2) \<Rightarrow> (Some e, sl2)
                            | (None, sl2) \<Rightarrow>
                                stack_loop host rest (line_number + 1)
                                  (sl2 \<lparr> sl_last_processed_line := line_number \<rparr>))))))"

text \<open>
  \<open>_initialize_array_stack_class\<close> appends the step of the class definition; the
  analysis of the methods follows.
\<close>

definition class_definition_step :: execution_step where
  "class_definition_step =
     \<lparr> stepNumber = 1, line = 1, code = ''class ArrayStack:'',
       state = \<lparr> st_error = None, st_stdout = Some (StdoutList []),
                 st_waiting_for_input = False,
                 st_detail_print = False, st_detail_output = None \<rparr> \<rparr>"

definition initial_stack_state ::
  "stack_host \<Rightarrow> string \<Rightarrow> execution_step list \<Rightarrow> stack_loop_state" where
  "initial_stack_state host code0 execution_steps =
     (let has_class_definition = str_contains code0 ''class ArrayStack:''
      in \<lparr> sl_steps = (if has_class_definition then [Own class_definition_step] else []),
           sl_step_number = (if has_class_definition then 2 else 1),
           sl_context = \<lparr> sc_instances = [], sc_variables = [], sc_stdout = [],
                          sc_methods = (if has_class_definition then sh_class_methods host code0
                                        else None) \<rparr>,
           sl_tracker = \<lparr> in_function_def = False, function_indent_level = 0 \<rparr>,
           sl_accumulated_stdout = [],
           sl_last_processed_line = 0,
           sl_execution_steps = execution_steps \<rparr>)"

text \<open>
  The error steps of the handlers of \<open>execute_code\<close>.  For a \<open>ValueError\<close> the step
  has the current \<open>step_number\<close>, the line the exception names (0 when it names
  none) and the text of that line.
\<close>

definition error_state :: "string \<Rightarrow> step_state" where
  "error_state message =
     \<lparr> st_error = Some message, st_stdout = Some (StdoutList []),
       st_waiting_for_input = False, st_detail_print = False, st_detail_output = None \<rparr>"

definition value_error_step :: "string \<Rightarrow> int \<Rightarrow> string \<Rightarrow> int \<Rightarrow> execution_step" where
  "value_error_step code0 step_number message error_line =
     \<lparr> stepNumber = step_number, line = error_line,
       code = (if 0 < error_line \<and> error_line \<le> int (length (split_lines code0))
               then split_lines code0 ! nat (error_line - 1) else []),
       state = error_state message \<rparr>"

text \<open>
  The part of \<open>execute_code\<close> after the test for direct execution.  When the loop
  ends without an exception, \<open>execution_steps\<close> is returned if it is not empty (the
  third test of the \<open>if\<close>, \<open>is_simulation\<close>, holds on this path), as the loop left
  its steps; otherwise, and from the handlers, \<open>steps\<close> is returned.
\<close>

definition stack_simulation ::
  "stack_host \<Rightarrow> string \<Rightarrow> execution_step list \<Rightarrow> execution_step list" where
  "stack_simulation host code0 execution_steps =
     (case sh_parse_error host code0 of
        Some (message, error_line) \<Rightarrow> [value_error_step code0 1 message error_line]
      | None \<Rightarrow>
          (case stack_loop host (split_lines code0) 1
                  (initial_stack_state host code0 execution_steps) of
             (None, sl) \<Rightarrow>
               (if sl_execution_steps sl \<noteq> [] then sl_execution_steps sl
                else map (resolve (sl_execution_steps sl)) (sl_steps sl))
           | (Some e, sl) \<Rightarrow>
               (let steps0 = map (resolve (sl_execution_steps sl)) (sl_steps sl)
                in case e of
                     ValueError m \<Rightarrow>
                       steps0 @ [value_error_step code0 (sl_step_number sl)
                                   (sh_error_text host e) 0]
                   | _ \<Rightarrow>
                       (if steps0 = []
                        then [\<lparr> stepNumber = sl_step_number sl, line = 0, code = first_line code0,
                                state = error_state (sh_error_text host e) \<rparr>]
                        else steps0))))"

text \<open>
  \<open>StackSimulator.execute_code\<close>.  \<open>input_values\<close> is
  \<open>getattr(self, '_input_values', [])\<close>.
\<close>

definition stack_is_simulation :: "string \<Rightarrow> bool" where
  "stack_is_simulation code0 =
     (str_contains code0 ''class ''
      \<and> (str_contains code0 ''Stack'' \<or> str_contains code0 ''stack'')
      \<and> \<not> str_contains code0 ''input('')"

definition has_fstring :: "string \<Rightarrow> bool" where
  "has_fstring code0 = (str_contains code0 (''f'' @ [dquote]) \<or> str_contains code0 (''f'' @ [CHR 0x27]))"

definition stack_execute_code ::
  "stack_host \<Rightarrow> host_env \<Rightarrow> executors \<Rightarrow> string \<Rightarrow> string list \<Rightarrow> execution_step list" where
  "stack_execute_code host env ex code0 input_values =
     (if str_contains code0 ''input('' \<or> has_fstring code0 \<or> \<not> stack_is_simulation code0
      then execute env ex code0 [] (Some ''stack'') (Some input_values)
      else stack_simulation host code0
             (execute env ex code0 [] (Some ''stack'') (Some input_values)))"

section \<open>The simulators and their factory\<close>

text \<open>
  \<open>SimulatorFactory._simulators\<close> maps eight keys to simulator classes.  Each class
  has a \<open>DirectCodeExecutor\<close>; several hand the request to its \<open>execute\<close> after a
  test on the text of the code (\<open>has_input or has_fstring or not is_simulation\<close>), and
  simulate the code with an operation parser otherwise.  The simulation of the
  stack simulator is modelled above.  Taken as parameters are the simulations of
  \<open>SinglyLinkedListSimulator\<close>, \<open>GraphSimulator\<close> and \<open>QueueSimulator\<close> (the part of
  \<open>execute_code\<close> after the test, a function of the code and of the steps of the
  direct executor; the parser of the queue simulator is not in the repository's
  sources), and \<open>DirectedGraphSimulator\<close>, whose module is not among the sources.
\<close>

record simulation_paths =
  sp_stack :: stack_host
  sp_singly_linked_list :: "string \<Rightarrow> execution_step list \<Rightarrow> execution_step list"
  sp_graph :: "string \<Rightarrow> execution_step list \<Rightarrow> execution_step list"
  sp_queue :: "string \<Rightarrow> execution_step list \<Rightarrow> execution_step list"
  sp_directed_graph :: "string \<Rightarrow> string list option \<Rightarrow> sim_outcome"

text \<open>
  \<open>SinglyLinkedListSimulator.execute_code\<close>; \<open>input_values\<close> is
  \<open>getattr(self, '_input_values', None)\<close>.
\<close>

definition sll_is_simulation :: "string \<Rightarrow> bool" where
  "sll_is_simulation code0 =
     (str_contains code0 ''class LinkedList:''
      \<or> (str_contains code0 ''LinkedList'' \<and> \<not> str_contains code0 ''input(''))"

definition sll_execute_code ::
  "(string \<Rightarrow> execution_step list \<Rightarrow> execution_step list) \<Rightarrow> host_env \<Rightarrow> executors \<Rightarrow> string
     \<Rightarrow> string list option \<Rightarrow> execution_step list" where
  "sll_execute_code simulation env ex code0 input_values =
     (if str_contains code0 ''input('' \<or> has_fstring code0 \<or> \<not> sll_is_simulation code0
      then execute env ex code0 [] (Some ''singlylinkedlist'') input_values
      else simulation code0 (execute env ex code0 [] (Some ''singlylinkedlist'') input_values))"

text \<open>
  \<open>DoublyLinkedListSimulator.execute_code\<close>, \<open>BinarySearchTreeSimulator.execute_code\<close>
  and \<open>UndirectedGraphSimulator.execute_code\<close> return the steps of \<open>execute\<close> for
  every code; \<open>input_values\<close> is \<open>getattr(self, '_input_values', None)\<close>.
\<close>

definition dll_execute_code ::
  "host_env \<Rightarrow> executors \<Rightarrow> string \<Rightarrow> string list option \<Rightarrow> execution_step list" where
  "dll_execute_code env ex code0 input_values =
     execute env ex code0 [] (Some ''doublylinkedlist'') input_values"

definition bst_execute_code ::
  "host_env \<Rightarrow> executors \<Rightarrow> string \<Rightarrow> string list option \<Rightarrow> execution_step list" where
  "bst_execute_code env ex code0 input_values =
     execute env ex code0 [] (Some ''binarysearchtree'') input_values"

definition undirected_graph_execute_code ::
  "host_env \<Rightarrow> executors \<Rightarrow> string \<Rightarrow> string list option \<Rightarrow> execution_step list" where
  "undirected_graph_execute_code env ex code0 input_values =
     execute env ex code0 [] (Some ''undirectedgraph'') input_values"

text \<open>
  \<open>GraphSimulator.execute_code\<close> and \<open>QueueSimulator.execute_code\<close>; \<open>input_values\<close>
  is \<open>getattr(self, '_input_values', [])\<close>.
\<close>

definition graph_is_simulation :: "string \<Rightarrow> bool" where
  "graph_is_simulation code0 =
     (str_contains code0 ''class ''
      \<and> (str_contains code0 ''Graph'' \<or> str_contains code0 ''graph''))"

definition graph_execute_code ::
  "(string \<Rightarrow> execution_step list \<Rightarrow> execution_step list) \<Rightarrow> host_env \<Rightarrow> executors \<Rightarrow> string
     \<Rightarrow> string list \<Rightarrow> execution_step list" where
  "graph_execute_code simulation env ex code0 input_values =
     (if str_contains code0 ''input('' \<or> has_fstring code0 \<or> \<not> graph_is_simulation code0
      then execute env ex code0 [] (Some ''graph'') (Some input_values)
      else simulation code0 (execute env ex code0 [] (Some ''graph'') (Some input_values)))"

definition queue_is_simulation_class :: "string \<Rightarrow> bool" where
  "queue_is_simulation_class code0 =
     (str_contains code0 ''class ArrayQueue''
      \<or> (str_contains code0 ''ArrayQueue'' \<and> \<not> str_contains code0 ''input(''))"

definition queue_execute_code ::
  "(string \<Rightarrow> execution_step list \<Rightarrow> execution_step list) \<Rightarrow> host_env \<Rightarrow> executors \<Rightarrow> string
     \<Rightarrow> string list \<Rightarrow> execution_step list" where
  "queue_execute_code simulation env ex code0 input_values =
     (if str_contains code0 ''input('' \<or> has_fstring code0 \<or> \<not> queue_is_simulation_class code0
      then execute env ex code0 [] (Some ''queue'') (Some input_values)
      else simulation code0 (execute env ex code0 [] (Some ''queue'') (Some input_values)))"

text \<open>
  The simulator that \<open>create_simulator(data_type)\<close> makes, run by the controller on
  the code: \<open>_execute_with_simulator\<close> stores the input values on the simulator only
  when there are some (\<open>if input_values:\<close>), and calls \<open>execute_code\<close>.  This is
  the outcome when the wait of the controller does not run out of time.
\<close>

definition simulator_run ::
  "simulation_paths \<Rightarrow> host_env \<Rightarrow> executors \<Rightarrow> string \<Rightarrow> string \<Rightarrow> string list
     \<Rightarrow> sim_outcome" where
  "simulator_run paths env ex data_type code0 input_values =
     (let key = lower data_type;
          stored = (if input_values = [] then None else Some input_values)
      in if key = ''stack''
         then Returned (stack_execute_code (sp_stack paths) env ex code0 input_values)
         else if key = ''singlylinkedlist''
         then Returned (sll_execute_code (sp_singly_linked_list paths) env ex code0 stored)
         else if key = ''doublylinkedlist''
         then Returned (dll_execute_code env ex code0 stored)
         else if key = ''binarysearchtree''
         then Returned (bst_execute_code env ex code0 stored)
         else if key = ''graph''
         then Returned (graph_execute_code (sp_graph paths) env ex code0 input_values)
         else if key = ''undirectedgraph''
         then Returned (undirected_graph_execute_code env ex code0 stored)
         else if key = ''directedgraph''
         then sp_directed_graph paths code0 stored
         else if key = ''queue''
         then Returned (queue_execute_code (sp_queue paths) env ex code0 input_values)
         else Raised (NotImplementedError ''DataType not supported yet.''))"

text \<open>
  The requests that a simulator under \<open>src/\<close> serves by handing the code to the
  direct executor and returning its steps.
\<close>

definition served_directly :: "string \<Rightarrow> string \<Rightarrow> bool" where
  "served_directly data_type code0 =
     (let key = lower data_type;
          marked = (str_contains code0 ''input('' \<or> has_fstring code0)
      in (key = ''stack'' \<and> (marked \<or> \<not> stack_is_simulation code0))
         \<or> (key = ''singlylinkedlist'' \<and> (marked \<or> \<not> sll_is_simulation code0))
         \<or> key = ''doublylinkedlist''
         \<or> key = ''binarysearchtree''
         \<or> (key = ''graph'' \<and> (marked \<or> \<not> graph_is_simulation code0))
         \<or> key = ''undirectedgraph''
         \<or> (key = ''queue'' \<and> (marked \<or> \<not> queue_is_simulation_class code0)))"


section \<open>Concrete requests\<close>

text \<open>
  The response to a request for data type \<open>dt\<close>, the controller's collaborators
  being fixed.
\<close>

definition response_for ::
  "simulation_paths \<Rightarrow> host_env \<Rightarrow> executors \<Rightarrow> string \<Rightarrow> string \<Rightarrow> string list
     \<Rightarrow> unit execution_response" where
  "response_for paths env ex dt code0 input_values =
     guarded_run (simulator_run paths env ex dt code0 input_values)
       ''exec_1'' 0 None code0 dt"

text \<open>
  A host for the stack simulation: \<open>int\<close> on plain decimal digits, no floats, no
  class analysis, a code that parses.
\<close>

fun digits_value :: "string \<Rightarrow> nat \<Rightarrow> nat option" where
  "digits_value [] acc = Some acc"
| "digits_value (c # cs) acc =
     (let n = (of_char c :: nat)
      in if 48 \<le> n \<and> n \<le> 57 then digits_value cs (10 * acc + (n - 48)) else None)"

definition decimal_int :: "string \<Rightarrow> int option" where
  "decimal_int s = (if s = [] then None else map_option int (digits_value s 0))"

definition plain_stack_host :: stack_host where
  "plain_stack_host =
     \<lparr> sh_int = decimal_int, sh_is_float = (\<lambda>s. False), sh_str = (\<lambda>v. []),
       sh_str_list = (\<lambda>vs. []), sh_class_methods = (\<lambda>c. None),
       sh_parse_error = (\<lambda>c. None), sh_evaluate_print = (\<lambda>ctx c. (c, ctx)),
       sh_error_text = exception_str \<rparr>"

definition plain_paths :: simulation_paths where
  "plain_paths =
     \<lparr> sp_stack = plain_stack_host,
       sp_singly_linked_list = (\<lambda>c ss. ss), sp_graph = (\<lambda>c ss. ss), sp_queue = (\<lambda>c ss. ss),
       sp_directed_graph = (\<lambda>c vs. Returned []) \<rparr>"

text \<open>
  A program for the stack simulator that uses the predefined \<open>ArrayStack\<close>:
  \<^verbatim>\<open>
  # ArrayStack class is predefined
  s = ArrayStack()
  s.push(1); s.push(2)
  x = s.pop()
  is_parentheses_matching(x)
  \<close>
  Run by the interpreter it stops at line 2, where \<open>ArrayStack\<close> is not defined.
\<close>

definition two_pushes_source :: string where
  "two_pushes_source = ''# ArrayStack class is predefined'' @ [newline]
     @ ''s = ArrayStack()'' @ [newline]
     @ ''s.push(1); s.push(2)'' @ [newline]
     @ ''x = s.pop()'' @ [newline]
     @ ''is_parentheses_matching(x)''"

definition two_pushes_guest :: guest where
  "two_pushes_guest = Line 2 [] (Raise (''name '' @ [CHR 0x27] @ ''ArrayStack'' @ [CHR 0x27]
                                        @ '' is not defined''))"

definition two_pushes_response :: "unit execution_response" where
  "two_pushes_response =
     response_for plain_paths plain_env
       (guest_executors (\<lambda>c. two_pushes_guest) (\<lambda>c s. no_result)) ''stack''
       two_pushes_source []"

text \<open>A guest that does not end: \<^verbatim>\<open>while True:\<close> / \<^verbatim>\<open>    pass\<close>.\<close>

definition hanging_source :: string where
  "hanging_source = ''while True:'' @ [newline] @ ''    pass''"

definition hanging_guest :: guest where
  "hanging_guest = Line 1 [] (Line 2 [] Hang)"



section \<open>Properties of the controller\<close>

lemma is_supported_stack: "is_supported ''stack''"
  by (simp add: is_supported_def simulator_keys_def lower_def lower_char_def)

lemma is_supported_dll: "is_supported ''doublylinkedlist''"
  by (simp add: is_supported_def simulator_keys_def lower_def lower_char_def)

lemma strip_simple [simp]: "strip ''x = 1'' = ''x = 1''"
  by (simp add: strip_def is_space_def)

lemma guarded_run_status:
  "status (guarded_run outcome exec_id created_at analysis code0 dt) \<noteq> Timeout"
  by (simp add: guarded_run_def create_error_response_def split: sum.splits option.splits)

text \<open>
  C10.  A controller as its constructor leaves it has no \<open>detector\<close> attribute.
  For every request whose \<open>dataType\<close> is absent or \<open>"auto"\<close>, or whose
  \<open>autoDetect\<close> flag is set, \<open>run_code_guest\<close> raises \<open>AttributeError\<close>:
  no response is returned, and the outcome does not depend on the simulator, which
  is never started.
\<close>

theorem run_code_guest_auto_detect_raises:
  assumes "req_dataType req = None \<or> req_dataType req = Some ''auto''
           \<or> req_autoDetect req = Some True"
  shows "run_code_guest ExecuteController_init simulate exec_id created_at analysis req
         = Inl (AttributeError ''object has no attribute detector'')"
  using assms
  by (auto simp: run_code_guest_def resolve_data_type_def no_explicit_type_def
      ExecuteController_init_def getattr_def Let_def)

theorem run_code_guest_auto_detect_raises_witness:
  "req_dataType \<lparr> req_code = ''x = 1'', req_dataType = Some ''auto'',
                  req_inputValues = None, req_autoDetect = None \<rparr> = Some ''auto''
   \<and> run_code_guest ExecuteController_init (\<lambda>dt c i. Returned []) ''exec_1'' 0
         (\<lambda>c. (None :: unit option))
         \<lparr> req_code = ''x = 1'', req_dataType = Some ''auto'',
           req_inputValues = None, req_autoDetect = None \<rparr>
       = Inl (AttributeError ''object has no attribute detector'')"
  using run_code_guest_auto_detect_raises
    [of "\<lparr> req_code = ''x = 1'', req_dataType = Some ''auto'',
            req_inputValues = None, req_autoDetect = None \<rparr>"
        "\<lambda>dt c i. Returned []" "''exec_1''" 0 "\<lambda>c. (None :: unit option)"]
  by simp

section \<open>Step numbering of \<open>DirectCodeExecutor.execute\<close>\<close>

lemma numbered_from_append:
  "numbered_from k (xs @ ys) = (numbered_from k xs \<and> numbered_from (k + int (length xs)) ys)"
  by (induction xs arbitrary: k) (auto simp: algebra_simps)

lemma numbered_from_map:
  "numbered_from k ss \<Longrightarrow> map stepNumber ss = map (\<lambda>i. k + int i) [0..<length ss]"
proof (induction ss arbitrary: k)
  case Nil
  then show ?case by simp
next
  case (Cons s ss)
  have "map (\<lambda>i. k + int i) [0..<length (s # ss)]
        = k # map (\<lambda>i. (k + 1) + int i) [0..<length ss]"
    by (simp add: upt_conv_Cons map_Suc_upt [symmetric] del: upt_Suc)
  with Cons show ?case by simp
qed

lemma accumulate_output_steps [simp]:
  "ls_steps (accumulate_output out ls) = ls_steps ls"
  "ls_step_number (accumulate_output out ls) = ls_step_number ls"
  by (simp_all add: accumulate_output_def Let_def split: option.splits)

lemma trace_loop_numbered:
  "trace_loop env code_lines tr ls = Inr ls' \<Longrightarrow>
   numbered_from k (ls_steps ls) \<Longrightarrow> ls_step_number ls = k + int (length (ls_steps ls)) \<Longrightarrow>
   numbered_from k (ls_steps ls') \<and> ls_step_number ls' = k + int (length (ls_steps ls'))"
proof (induction tr arbitrary: ls)
  case Nil
  then show ?case by simp
next
  case (Cons te rest)
  show ?case
  proof (cases "te_event te = Some ''exception''")
    case True
    with Cons.prems show ?thesis
      by (intro Cons.IH [where ls = "ls \<lparr> ls_steps := ls_steps ls @ [exception_step te ls],
                ls_step_number := ls_step_number ls + 1 \<rparr>"])
         (simp_all add: numbered_from_append exception_step_def)
  next
    case False
    with Cons.prems obtain line_no where ln: "te_line te = Some line_no"
      by (auto split: option.splits)
    show ?thesis
    proof (cases "code_at code_lines line_no = [] \<or> startswith (code_at code_lines line_no) ''#''")
      case True
      with Cons.prems False ln show ?thesis
        by (intro Cons.IH [where ls = ls]) (simp_all add: Let_def)
    next
      case skip: False
      with Cons.prems False ln have nr: "enrich_raises env te = None"
        by (auto simp: Let_def split: option.splits)
      let ?ls1 = "accumulate_output (te_output te) ls"
      let ?ls2 = "?ls1 \<lparr> ls_steps := ls_steps ?ls1 @
                     [\<lparr> stepNumber = ls_step_number ?ls1, line = line_no,
                        code = code_at code_lines line_no,
                        state = \<lparr> st_error = None,
                          st_stdout = Some (StdoutList (ls_accumulated_stdout ?ls1)),
                          st_waiting_for_input = False,
                          st_detail_print = False, st_detail_output = te_output te \<rparr> \<rparr>],
                   ls_step_number := ls_step_number ?ls1 + 1 \<rparr>"
      from Cons.prems False ln skip nr
      have "trace_loop env code_lines rest ?ls2 = Inr ls'"
        by (simp add: Let_def)
      then show ?thesis
        using Cons.prems by (intro Cons.IH [where ls = ?ls2]) (simp_all add: numbered_from_append)
    qed
  qed
qed

lemma flush_buffer_numbers: "map stepNumber (flush_buffer ls) = map stepNumber (ls_steps ls)"
proof (cases "ls_current_line_buffer ls \<noteq> [] \<and> ls_steps ls \<noteq> []")
  case True
  then have "ls_steps ls = butlast (ls_steps ls) @ [last (ls_steps ls)]" by simp
  then have "map stepNumber (ls_steps ls)
             = map stepNumber (butlast (ls_steps ls)) @ [stepNumber (last (ls_steps ls))]"
    by (metis list.simps(8,9) map_append)
  with True show ?thesis by (simp add: flush_buffer_def)
next
  case False
  then show ?thesis by (auto simp: flush_buffer_def)
qed

lemma numbered_from_cong: "map stepNumber xs = map stepNumber ys \<Longrightarrow> numbered_from k xs = numbered_from k ys"
proof (induction xs arbitrary: ys k)
  case Nil
  then show ?case by simp
next
  case (Cons x xs)
  then obtain y ys' where "ys = y # ys'" by (cases ys) auto
  with Cons show ?case by auto
qed

lemma print_steps_numbered: "numbered_from sn (print_steps out outs cnt ls lnum sn)"
  by (induction ls arbitrary: cnt lnum sn) (simp_all add: Let_def)

lemma parsed_error_step_number [simp]: "stepNumber (parsed_error_step code0 sn err) = sn"
  by (simp add: parsed_error_step_def)

lemma outputs_from_stdout_early:
  "outputs_from_stdout env code0 result sn = Inl early \<Longrightarrow> numbered_from sn early"
  by (auto simp: outputs_from_stdout_def split: if_splits option.splits)

lemma gather_outputs_early:
  "gather_outputs env code0 result sn = Inl early \<Longrightarrow> numbered_from sn early"
  by (auto simp: gather_outputs_def outputs_from_stdout_early split: if_splits option.splits)

lemma fallback_steps_numbered: "numbered_from sn (fallback_steps env code0 result sn)"
proof (cases "gather_outputs env code0 result sn")
  case (Inl early)
  then show ?thesis by (simp add: fallback_steps_def gather_outputs_early)
next
  case (Inr po)
  obtain print_outputs actual_stdout where po: "po = (print_outputs, actual_stdout)"
    by (cases po)
  show ?thesis
  proof (cases "stderr_error env print_outputs result")
    case None
    with Inr po show ?thesis
      by (simp add: fallback_steps_def Let_def print_steps_numbered)
  next
    case (Some err)
    with Inr po show ?thesis by (simp add: fallback_steps_def)
  qed
qed

lemma create_steps_numbered:
  assumes "create_steps_from_result env code0 result sn = Inr ss"
  shows "numbered_from sn ss"
proof (cases "res_interactive result \<and> res_trace result \<noteq> []")
  case False
  with assms show ?thesis
    by (auto simp: create_steps_from_result_def fallback_steps_numbered)
next
  case True
  let ?ls0 = "\<lparr> ls_steps = [], ls_step_number = sn,
                  ls_accumulated_stdout = [], ls_current_line_buffer = [] \<rparr>"
  from True assms obtain ls where ls: "trace_loop env (split_lines code0) (res_trace result) ?ls0 = Inr ls"
    by (auto simp: create_steps_from_result_def split: sum.splits)
  from trace_loop_numbered [OF ls, of sn] have "numbered_from sn (ls_steps ls)" by simp
  then have "numbered_from sn (flush_buffer ls)"
    using numbered_from_cong [OF flush_buffer_numbers] by blast
  with True assms ls show ?thesis
    by (auto simp: create_steps_from_result_def fallback_steps_numbered split: if_splits)
qed

lemma waiting_step_number:
  "waiting_step code0 w ss = Inr st \<Longrightarrow> stepNumber st = int (length ss) + 1"
  by (auto simp: waiting_step_def Let_def split: json.splits option.splits sum.splits prod.splits)

lemma create_error_step_numbered: "numbered_from k (create_error_step code0 result k)"
  by (simp add: create_error_step_def)

lemma execute_body_numbered:
  assumes "execute_body env ex code0 stdin_data dst input_values = Inr ss"
  shows "numbered_from 1 ss"
proof -
  define result0 where "result0 =
            (if has_input_call code0 \<or> (case dst of None \<Rightarrow> False
                           | Some t \<Rightarrow> t \<in> set force_tracing_types)
             then (execute_interactive ex code0 stdin_data
                     (case input_values of None \<Rightarrow> [] | Some vs \<Rightarrow> vs))
                    \<lparr> res_interactive := True \<rparr>
             else (real_execute ex code0 stdin_data) \<lparr> res_interactive := False \<rparr>)"
  obtain result waiting_signal where dw: "detect_waiting_signal env result0 = (result, waiting_signal)"
    by (cases "detect_waiting_signal env result0")
  define made where "made =
            (if res_interactive result then
               (case create_steps_from_interactive_result env code0 result 1 of
                  Inl e \<Rightarrow> Inl e
                | Inr ss \<Rightarrow>
                    (if res_exit_code result \<noteq> 0
                     then Inr (ss @ create_error_step code0 result (1 + int (length ss)))
                     else Inr ss))
             else if res_exit_code result = 0
             then create_steps_from_result env code0 result 1
             else Inr (create_error_step code0 result 1))"
  have body: "execute_body env ex code0 stdin_data dst input_values =
     (case made of
           Inl e \<Rightarrow> Inl e
         | Inr ss \<Rightarrow>
             (case waiting_signal of
                None \<Rightarrow> Inr ss
              | Some w \<Rightarrow>
                  (if truthy w then
                     (case waiting_step code0 w ss of
                        Inl e \<Rightarrow> Inl e
                      | Inr st \<Rightarrow> Inr (ss @ [st]))
                   else Inr ss)))"
    unfolding execute_body_def Let_def result0_def [symmetric] dw made_def by simp
  from assms body obtain ms where ms: "made = Inr ms"
    by (cases made) auto
  have nm: "numbered_from 1 ms"
    using ms unfolding made_def create_steps_from_interactive_result_def
    by (auto simp: numbered_from_append create_error_step_numbered
        dest: create_steps_numbered split: if_splits sum.splits)
  from assms body ms nm show ?thesis
    by (auto simp: numbered_from_append dest: waiting_step_number
        split: option.splits if_splits sum.splits)
qed

lemma execute_numbered: "numbered_from 1 (execute env ex code0 stdin_data dst input_values)"
  by (auto simp: execute_def unexpected_error_step_def dest: execute_body_numbered
      split: sum.splits)

lemma numbered_from_one:
  "numbered_from 1 ss \<Longrightarrow> map stepNumber ss = map int [1..<Suc (length ss)]"
proof -
  assume "numbered_from 1 ss"
  then have "map stepNumber ss = map (\<lambda>i. 1 + int i) [0..<length ss]"
    by (rule numbered_from_map)
  also have "\<dots> = map int (map Suc [0..<length ss])"
    by simp
  also have "map Suc [0..<length ss] = [1..<Suc (length ss)]"
    by (simp add: map_Suc_upt)
  finally show ?thesis .
qed

lemma guarded_run_steps:
  "steps (guarded_run (Returned ss) exec_id created_at analysis code0 dt) = ss"
  by (simp add: guarded_run_def execute_with_timeout_def create_error_response_def
      split: option.splits)

lemma guarded_run_totalSteps:
  "totalSteps (guarded_run outcome exec_id created_at analysis code0 dt)
   = length (steps (guarded_run outcome exec_id created_at analysis code0 dt))"
  by (simp add: guarded_run_def create_error_response_def split: sum.splits option.splits)

text \<open>
  Whatever the executors return and whatever happens while the steps are built,
  the list returned by \<open>DirectCodeExecutor.execute\<close> is numbered 1, 2, 3, ... without
  a gap: its i-th step has \<open>stepNumber\<close> i.  The controller puts the list it receives
  into the response unchanged, and for every outcome of the run (steps returned,
  timeout, exception) \<open>totalSteps\<close> is the length of the list in the response.
\<close>

lemma execute_step_numbers_contiguous:
  "map stepNumber (execute env ex code0 stdin_data dst input_values)
     = map int [1..<Suc (length (execute env ex code0 stdin_data dst input_values))]
   \<and> steps (guarded_run (Returned (execute env ex code0 stdin_data dst input_values))
             exec_id created_at analysis code1 dt)
     = execute env ex code0 stdin_data dst input_values
   \<and> totalSteps (guarded_run outcome exec_id created_at analysis code1 dt)
     = length (steps (guarded_run outcome exec_id created_at analysis code1 dt))"
  using numbered_from_one [OF execute_numbered] guarded_run_steps guarded_run_totalSteps
  by blast

section \<open>Partial progress when the guest process fails\<close>

lemma print_or_single_nonempty: "fallback_steps env code0 result sn \<noteq> []"
proof (cases "gather_outputs env code0 result sn")
  case (Inl early)
  then have "early \<noteq> []"
    by (auto simp: gather_outputs_def outputs_from_stdout_def split: if_splits option.splits)
  with Inl show ?thesis by (simp add: fallback_steps_def)
next
  case (Inr po)
  obtain print_outputs actual_stdout where po: "po = (print_outputs, actual_stdout)"
    by (cases po)
  show ?thesis
  proof (cases "stderr_error env print_outputs result")
    case None
    with Inr po show ?thesis by (simp add: fallback_steps_def Let_def)
  next
    case (Some err)
    with Inr po show ?thesis by (simp add: fallback_steps_def)
  qed
qed

lemma create_steps_nonempty:
  "create_steps_from_result env code0 result sn = Inr ss \<Longrightarrow> ss \<noteq> []"
  by (auto simp: create_steps_from_result_def print_or_single_nonempty
      split: if_splits sum.splits)

lemma execute_body_nonempty:
  assumes "execute_body env ex code0 stdin_data dst input_values = Inr ss"
  shows "ss \<noteq> []"
  using assms
  unfolding execute_body_def Let_def create_steps_from_interactive_result_def
  by (auto simp: create_error_step_def dest: create_steps_nonempty
      split: prod.splits if_splits sum.splits option.splits)

lemma execute_nonempty: "execute env ex code0 stdin_data dst input_values \<noteq> []"
  by (auto simp: execute_def dest: execute_body_nonempty split: sum.splits)

lemma detect_waiting_signal_none:
  "\<not> str_contains (res_stdout result) waiting_marker \<Longrightarrow>
   detect_waiting_signal env result = (result, None)"
  by (simp add: detect_waiting_signal_def)


text \<open>
  C8, as stated, fails.  The guest \<open>exit_source\<close> ends with exit code 1 after two
  traced lines, from which two steps can be made; but the text it printed is taken
  for a waiting signal with line 99, the waiting step cannot be built
  (\<open>IndexError\<close>), and the handler of \<open>execute\<close> returns one \<open>Unexpected error\<close>
  step in place of the two steps and the error step.
\<close>

theorem partial_steps_dropped_counterexample:
  "res_exit_code (execute_interactive exit_executors exit_source [] []) = 1
   \<and> map line (made_steps (create_steps_from_interactive_result plain_env exit_source
         (fst (detect_waiting_signal plain_env
                (execute_interactive exit_executors exit_source [] []))) 1)) = [1, 2]
   \<and> execute plain_env exit_executors exit_source [] (Some ''stack'') None
       = [unexpected_error_step exit_source (IndexError ''list index out of range'')]"
  by code_simp

text \<open>
  C8, amended.  For every interactive execution that ends with a non-zero exit code,
  whose captured output contains no waiting marker and for which building the steps
  raises no exception, the returned list is the steps made from the partial trace
  followed by exactly one terminal error step, numbered next.  In every case the
  returned list is non-empty.
\<close>

theorem nonzero_exit_keeps_partial_steps:
  "((has_input_call code0 \<or> (\<exists>t. dst = Some t \<and> t \<in> set force_tracing_types))
      \<and> result = (execute_interactive ex code0 stdin_data
                     (case input_values of None \<Rightarrow> [] | Some vs \<Rightarrow> vs))
                  \<lparr> res_interactive := True \<rparr>
      \<and> res_exit_code result \<noteq> 0
      \<and> \<not> str_contains (res_stdout result) waiting_marker
      \<and> create_steps_from_interactive_result env code0 result 1 = Inr ss
    \<longrightarrow> execute env ex code0 stdin_data dst input_values
         = ss @ create_error_step code0 result (1 + int (length ss)))
   \<and> execute env ex code0 stdin_data dst input_values \<noteq> []"
proof (intro conjI impI)
  assume h: "(has_input_call code0 \<or> (\<exists>t. dst = Some t \<and> t \<in> set force_tracing_types))
      \<and> result = (execute_interactive ex code0 stdin_data
                     (case input_values of None \<Rightarrow> [] | Some vs \<Rightarrow> vs))
                  \<lparr> res_interactive := True \<rparr>
      \<and> res_exit_code result \<noteq> 0
      \<and> \<not> str_contains (res_stdout result) waiting_marker
      \<and> create_steps_from_interactive_result env code0 result 1 = Inr ss"
  then have r0: "(if has_input_call code0 \<or> (case dst of None \<Rightarrow> False
                           | Some t \<Rightarrow> t \<in> set force_tracing_types)
             then (execute_interactive ex code0 stdin_data
                     (case input_values of None \<Rightarrow> [] | Some vs \<Rightarrow> vs))
                    \<lparr> res_interactive := True \<rparr>
             else (real_execute ex code0 stdin_data) \<lparr> res_interactive := False \<rparr>) = result"
    by (auto split: option.splits)
  from h have req: "result = (execute_interactive ex code0 stdin_data
                     (case input_values of None \<Rightarrow> [] | Some vs \<Rightarrow> vs))
                  \<lparr> res_interactive := True \<rparr>" by blast
  have ri: "res_interactive result" by (subst req) simp
  from h have quiet: "\<not> str_contains (res_stdout result) waiting_marker" by blast
  from h have exit: "res_exit_code result \<noteq> 0" by blast
  from h have made: "create_steps_from_interactive_result env code0 result 1 = Inr ss"
    by blast
  show "execute env ex code0 stdin_data dst input_values
         = ss @ create_error_step code0 result (1 + int (length ss))"
    unfolding execute_def execute_body_def Let_def r0 detect_waiting_signal_none [OF quiet]
    using ri exit made by simp
next
  show "execute env ex code0 stdin_data dst input_values \<noteq> []"
    by (rule execute_nonempty)
qed

theorem nonzero_exit_keeps_partial_steps_witness:
  "res_exit_code (execute_interactive quiet_executors quiet_source [] []) \<noteq> 0
   \<and> \<not> str_contains (res_stdout (execute_interactive quiet_executors quiet_source [] []))
         waiting_marker
   \<and> map line (made_steps (create_steps_from_interactive_result plain_env quiet_source
         ((execute_interactive quiet_executors quiet_source [] [])
            \<lparr> res_interactive := True \<rparr>) 1)) = [1, 2]
   \<and> map stepNumber (execute plain_env quiet_executors quiet_source [] (Some ''stack'') None)
       = [1, 2, 3]
   \<and> map (\<lambda>s. st_error (state s))
        (execute plain_env quiet_executors quiet_source [] (Some ''stack'') None)
       = [None, None, Some ''Execution failed'']"
proof -
  let ?R = "(execute_interactive quiet_executors quiet_source [] [])
              \<lparr> res_interactive := True \<rparr>"
  let ?ss = "made_steps (create_steps_from_interactive_result plain_env quiet_source ?R 1)"
  have h1: "has_input_call quiet_source
            \<or> (\<exists>t. Some ''stack'' = Some t \<and> t \<in> set force_tracing_types)"
    by (simp add: force_tracing_types_def)
  have h2: "?R = (execute_interactive quiet_executors quiet_source []
                    (case (None :: string list option) of None \<Rightarrow> [] | Some vs \<Rightarrow> vs))
                 \<lparr> res_interactive := True \<rparr>"
    by simp
  have h3: "res_exit_code ?R \<noteq> 0" by code_simp
  have h4: "\<not> str_contains (res_stdout ?R) waiting_marker" by code_simp
  have h5: "create_steps_from_interactive_result plain_env quiet_source ?R 1 = Inr ?ss"
    by code_simp
  have ex: "execute plain_env quiet_executors quiet_source [] (Some ''stack'') None
            = ?ss @ create_error_step quiet_source ?R (1 + int (length ?ss))"
    using nonzero_exit_keeps_partial_steps
      [of quiet_source "Some ''stack''" ?R quiet_executors "[]" None plain_env ?ss]
      h1 h2 h3 h4 h5
    by blast
  have e1: "res_exit_code (execute_interactive quiet_executors quiet_source [] []) \<noteq> 0"
    by code_simp
  have e2: "\<not> str_contains (res_stdout (execute_interactive quiet_executors quiet_source [] []))
         waiting_marker"
    by code_simp
  have e3: "map line ?ss = [1, 2]" by code_simp
  have e4: "map stepNumber (?ss @ create_error_step quiet_source ?R (1 + int (length ?ss)))
            = [1, 2, 3]"
    by code_simp
  have e5: "map (\<lambda>s. st_error (state s))
              (?ss @ create_error_step quiet_source ?R (1 + int (length ?ss)))
            = [None, None, Some ''Execution failed'']"
    by code_simp
  show ?thesis
    unfolding ex using e1 e2 e3 e4 e5 by blast
qed

section \<open>Exhausted interactive input\<close>

lemma look_back_line_entry [simp]: "line_entry (look_back out n te) = line_entry te"
  by (simp add: look_back_def line_entry_def Let_def)


lemma trace_lines_inputs [simp]:
  "ws_input_values (trace_lines n vars ws) = ws_input_values ws"
  "ws_input_index (trace_lines n vars ws) = ws_input_index ws"
  by (simp_all add: trace_lines_def Let_def)



lemma no_err_not_has_error: "no_err s \<Longrightarrow> \<not> step_has_error s"
  by (simp add: no_err_def step_has_error_def)

lemma find_error_message_append_clean:
  "list_all no_err ss \<Longrightarrow> find_error_message (ss @ ys) = find_error_message ys"
  by (induction ss) (simp_all add: no_err_not_has_error)






lemma accumulate_output_steps2 [simp]:
  "ls_steps (accumulate_output out ls) = ls_steps ls"
  by (simp add: accumulate_output_def Let_def split: option.splits)





lemma dropWhile_keeps: "\<not> P x \<Longrightarrow> x \<in> set xs \<Longrightarrow> dropWhile P xs \<noteq> []"
  by (induction xs) auto

lemma strip_nonblank: "\<not> is_space c \<Longrightarrow> strip (c # s) \<noteq> []"
proof -
  assume c: "\<not> is_space c"
  then have "dropWhile is_space (c # s) = c # s" by simp
  moreover have "dropWhile is_space (rev (c # s)) \<noteq> []"
    using dropWhile_keeps [of is_space c "rev (c # s)"] c by simp
  ultimately show ?thesis by (simp add: strip_def)
qed




text \<open>A request that is served directly is answered with the steps of \<open>execute\<close>.\<close>

lemma served_directly_run:
  assumes "served_directly dt code0"
  shows "\<exists>iv t. (case iv of None \<Rightarrow> [] | Some vs \<Rightarrow> vs) = input_values
           \<and> t \<in> set force_tracing_types
           \<and> simulator_run paths env ex dt code0 input_values
               = Returned (execute env ex code0 [] (Some t) iv)"
proof -
  let ?stored = "if input_values = [] then None else Some input_values"
  have a: "(case ?stored of None \<Rightarrow> [] | Some vs \<Rightarrow> vs) = input_values" by simp
  have b: "(case Some input_values of None \<Rightarrow> [] | Some vs \<Rightarrow> vs) = input_values" by simp
  consider (stack) "lower dt = ''stack''"
      "str_contains code0 ''input('' \<or> has_fstring code0 \<or> \<not> stack_is_simulation code0"
    | (sll) "lower dt = ''singlylinkedlist''"
      "str_contains code0 ''input('' \<or> has_fstring code0 \<or> \<not> sll_is_simulation code0"
    | (dll) "lower dt = ''doublylinkedlist''"
    | (bst) "lower dt = ''binarysearchtree''"
    | (graph) "lower dt = ''graph''"
      "str_contains code0 ''input('' \<or> has_fstring code0 \<or> \<not> graph_is_simulation code0"
    | (ugraph) "lower dt = ''undirectedgraph''"
    | (queue) "lower dt = ''queue''"
      "str_contains code0 ''input('' \<or> has_fstring code0 \<or> \<not> queue_is_simulation_class code0"
    using assms unfolding served_directly_def Let_def by blast
  then show ?thesis
  proof cases
    case stack
    then have "simulator_run paths env ex dt code0 input_values
               = Returned (execute env ex code0 [] (Some ''stack'') (Some input_values))"
      by (simp add: simulator_run_def stack_execute_code_def Let_def)
    moreover have "''stack'' \<in> set force_tracing_types" by (simp add: force_tracing_types_def)
    ultimately show ?thesis using b by blast
  next
    case sll
    then have "simulator_run paths env ex dt code0 input_values
               = Returned (execute env ex code0 [] (Some ''singlylinkedlist'') ?stored)"
      by (simp add: simulator_run_def sll_execute_code_def Let_def)
    moreover have "''singlylinkedlist'' \<in> set force_tracing_types"
      by (simp add: force_tracing_types_def)
    ultimately show ?thesis using a by blast
  next
    case dll
    then have "simulator_run paths env ex dt code0 input_values
               = Returned (execute env ex code0 [] (Some ''doublylinkedlist'') ?stored)"
      by (simp add: simulator_run_def dll_execute_code_def Let_def)
    moreover have "''doublylinkedlist'' \<in> set force_tracing_types"
      by (simp add: force_tracing_types_def)
    ultimately show ?thesis using a by blast
  next
    case bst
    then have "simulator_run paths env ex dt code0 input_values
               = Returned (execute env ex code0 [] (Some ''binarysearchtree'') ?stored)"
      by (simp add: simulator_run_def bst_execute_code_def Let_def)
    moreover have "''binarysearchtree'' \<in> set force_tracing_types"
      by (simp add: force_tracing_types_def)
    ultimately show ?thesis using a by blast
  next
    case graph
    then have "simulator_run paths env ex dt code0 input_values
               = Returned (execute env ex code0 [] (Some ''graph'') (Some input_values))"
      by (simp add: simulator_run_def graph_execute_code_def Let_def)
    moreover have "''graph'' \<in> set force_tracing_types" by (simp add: force_tracing_types_def)
    ultimately show ?thesis using b by blast
  next
    case ugraph
    then have "simulator_run paths env ex dt code0 input_values
               = Returned (execute env ex code0 [] (Some ''undirectedgraph'') ?stored)"
      by (simp add: simulator_run_def undirected_graph_execute_code_def Let_def)
    moreover have "''undirectedgraph'' \<in> set force_tracing_types"
      by (simp add: force_tracing_types_def)
    ultimately show ?thesis using a by blast
  next
    case queue
    then have "simulator_run paths env ex dt code0 input_values
               = Returned (execute env ex code0 [] (Some ''queue'') (Some input_values))"
      by (simp add: simulator_run_def queue_execute_code_def Let_def)
    moreover have "''queue'' \<in> set force_tracing_types" by (simp add: force_tracing_types_def)
    ultimately show ?thesis using b by blast
  qed
qed


lemma guarded_run_error:
  "find_error_message ss = Some m \<Longrightarrow>
   status (guarded_run (Returned ss) exec_id created_at analysis code0 dt) = Error
   \<and> errorMessage (guarded_run (Returned ss) exec_id created_at analysis code0 dt) = Some m"
  by (simp add: guarded_run_def execute_with_timeout_def create_error_response_def)





section \<open>Timeouts\<close>

lemma run_guest_hangs:
  "hangs g (drop (ws_input_index ws) (ws_input_values ws)) \<Longrightarrow>
   \<exists>ws'. run_guest g ws = (Killed, ws')"
proof (induction g arbitrary: ws)
  case (Finish x)
  then show ?case by simp
next
  case (Line x1 x2 g)
  then show ?case by simp
next
  case (Print x1 g)
  from Print.prems show ?case
    by (auto intro!: Print.IH)
next
  case (Input p k)
  show ?case
  proof (cases "ws_input_index ws < length (ws_input_values ws)")
    case True
    let ?v = "ws_input_values ws ! ws_input_index ws"
    let ?ws1 = "ws \<lparr> ws_captured_stdout := ws_captured_stdout ws @ p \<rparr>"
    let ?ws2 = "?ws1 \<lparr> ws_input_index := ws_input_index ?ws1 + 1,
                           ws_captured_stdout := ws_captured_stdout ?ws1 @ ?v @ [newline] \<rparr>"
    have ci: "custom_input p ws = Inr (?v, ?ws2)"
      using True by (simp add: custom_input_def Let_def)
    have dr: "drop (ws_input_index ws) (ws_input_values ws)
              = ?v # drop (Suc (ws_input_index ws)) (ws_input_values ws)"
      using True by (simp add: Cons_nth_drop_Suc)
    from Input.prems dr have st: "hangs (k ?v) (drop (ws_input_index ?ws2) (ws_input_values ?ws2))"
      by simp
    have "\<exists>ws'. run_guest (k ?v) ?ws2 = (Killed, ws')"
      by (rule Input.IH [OF _ st]) simp
    with ci show ?thesis by simp
  next
    case False
    then have "drop (ws_input_index ws) (ws_input_values ws) = []" by simp
    with Input.prems show ?thesis by simp
  qed
next
  case (TryInput p k h)
  show ?case
  proof (cases "ws_input_index ws < length (ws_input_values ws)")
    case True
    let ?v = "ws_input_values ws ! ws_input_index ws"
    let ?ws1 = "ws \<lparr> ws_captured_stdout := ws_captured_stdout ws @ p \<rparr>"
    let ?ws2 = "?ws1 \<lparr> ws_input_index := ws_input_index ?ws1 + 1,
                           ws_captured_stdout := ws_captured_stdout ?ws1 @ ?v @ [newline] \<rparr>"
    have ci: "custom_input p ws = Inr (?v, ?ws2)"
      using True by (simp add: custom_input_def Let_def)
    have dr: "drop (ws_input_index ws) (ws_input_values ws)
              = ?v # drop (Suc (ws_input_index ws)) (ws_input_values ws)"
      using True by (simp add: Cons_nth_drop_Suc)
    from TryInput.prems dr
    have st: "hangs (k ?v) (drop (ws_input_index ?ws2) (ws_input_values ?ws2))"
      by simp
    have "\<exists>ws'. run_guest (k ?v) ?ws2 = (Killed, ws')"
      by (rule TryInput.IH(1) [OF _ st]) simp
    with ci show ?thesis by simp
  next
    case False
    let ?ws1 = "ws \<lparr> ws_captured_stdout := ws_captured_stdout ws @ p \<rparr>"
    have ci: "custom_input p ws = Inl (PyException ''No more input provided'', ?ws1)"
      using False by (simp add: custom_input_def Let_def)
    from False have "drop (ws_input_index ws) (ws_input_values ws) = []" by simp
    with TryInput.prems have st: "hangs h (drop (ws_input_index ?ws1) (ws_input_values ?ws1))"
      by simp
    have "\<exists>ws'. run_guest h ?ws1 = (Killed, ws')"
      by (rule TryInput.IH(2) [OF st])
    with ci show ?thesis by simp
  qed
next
  case (Raise x)
  then show ?case by simp
next
  case (Exit x)
  then show ?case by simp
next
  case Hang
  then show ?case by simp
qed

lemma wrapper_main_hangs:
  assumes "hangs g vals"
  shows "wo_timed_out (wrapper_main g vals)"
proof -
  let ?ws0 = "\<lparr> ws_input_values = vals, ws_input_index = 0,
                         ws_captured_stdout = [], ws_last_stdout_len = 0,
                         ws_trace_data = [] \<rparr>"
  from run_guest_hangs [of g ?ws0] assms
  obtain ws' where "run_guest g ?ws0 = (Killed, ws')" by auto
  then show ?thesis by (simp add: wrapper_main_def Let_def)
qed

lemma print_steps_clean: "list_all no_err (print_steps out outs cnt ls lnum sn)"
  by (induction ls arbitrary: cnt lnum sn) (simp_all add: Let_def no_err_def)

lemma strip_timeout_text: "strip timeout_text = timeout_text"
  by (simp add: strip_def timeout_text_def is_space_def)

lemma timeout_text_not_blank: "timeout_text \<noteq> []"
  by (simp add: timeout_text_def)

text \<open>
  The steps that \<open>execute\<close> makes of a killed process: those of the fallback, none of
  them with an error, and the error step for the timeout.
\<close>

lemma execute_killed:
  assumes hg: "hangs (guest_of code0) (case iv of None \<Rightarrow> [] | Some vs \<Rightarrow> vs)"
    and ft: "t \<in> set force_tracing_types"
    and nj: "json_loads env timeout_text = None"
  shows "\<exists>ss. list_all no_err ss
           \<and> execute env (guest_executors guest_of plain) code0 stdin_data (Some t) iv
               = ss @ [\<lparr> stepNumber = 1 + int (length ss), line = 1, code = first_line code0,
                         state = \<lparr> st_error = Some timeout_text, st_stdout = None,
                                   st_waiting_for_input = False,
                                   st_detail_print = False, st_detail_output = None \<rparr> \<rparr>]"
proof -
  let ?vals = "case iv of None \<Rightarrow> [] | Some vs \<Rightarrow> vs"
  let ?wo = "wrapper_main (guest_of code0) ?vals"
  let ?R = "\<lparr> res_stdout = [], res_stderr = timeout_text, res_exit_code = - 1,
          res_timed_out = True, res_output = Some (JObj []),
          res_trace = [], res_input_history = [], res_interactive = True \<rparr>"
  let ?ex = "guest_executors guest_of plain"
  let ?ss = "fallback_steps env code0 ?R 1"
  have pio: "parse_interactive_output ?wo = ?R"
    using wrapper_main_hangs [OF hg] by (simp add: parse_interactive_output_def)
  have r0: "(execute_interactive ?ex code0 stdin_data ?vals) \<lparr> res_interactive := True \<rparr> = ?R"
    by (simp add: guest_executors_def pio)
  have dw: "detect_waiting_signal env ?R = (?R, None)"
    by (simp add: detect_waiting_signal_def)
  have cs: "create_steps_from_interactive_result env code0 ?R 1 = Inr ?ss"
    by (simp add: create_steps_from_interactive_result_def create_steps_from_result_def)
  have body: "execute_body env ?ex code0 stdin_data (Some t) iv
              = Inr (?ss @ create_error_step code0 ?R (1 + int (length ?ss)))"
    unfolding execute_body_def Let_def using ft
    by (simp add: r0 dw cs)
  have go: "gather_outputs env code0 ?R 1 = Inr ([], [])"
    by (simp add: gather_outputs_def outputs_from_stdout_def)
  have se: "stderr_error env [] ?R = None"
    by (simp add: stderr_error_def strip_timeout_text nj timeout_text_not_blank)
  have clean: "list_all no_err ?ss"
    by (simp add: fallback_steps_def go se Let_def print_steps_clean no_err_def)
  have "execute env ?ex code0 stdin_data (Some t) iv
        = ?ss @ create_error_step code0 ?R (1 + int (length ?ss))"
    by (simp add: execute_def body)
  then show ?thesis
    using clean by (auto simp: create_error_step_def timeout_text_not_blank)
qed

lemma timeout_text_has_error:
  "step_has_error (s \<lparr> state := (state s) \<lparr> st_error := Some timeout_text \<rparr> \<rparr>)"
  using strip_nonblank [of "CHR ''C''" "''ode execution timed out''"]
  by (simp add: step_has_error_def timeout_text_def is_space_def)


lemma served_directly_supported:
  "served_directly dt code0 \<Longrightarrow> is_supported dt \<and> dt \<noteq> []"
  by (auto simp: served_directly_def is_supported_def simulator_keys_def Let_def lower_def)

lemma killed_steps_response:
  assumes clean: "list_all no_err ss"
  shows "status (guarded_run (Returned (ss @ [\<lparr> stepNumber = n, line = 1, code = c,
                         state = \<lparr> st_error = Some timeout_text, st_stdout = None,
                                   st_waiting_for_input = False,
                                   st_detail_print = False, st_detail_output = None \<rparr> \<rparr>]))
                   exec_id created_at analysis code0 dt) = Error"
    and "errorMessage (guarded_run (Returned (ss @ [\<lparr> stepNumber = n, line = 1, code = c,
                         state = \<lparr> st_error = Some timeout_text, st_stdout = None,
                                   st_waiting_for_input = False,
                                   st_detail_print = False, st_detail_output = None \<rparr> \<rparr>]))
                   exec_id created_at analysis code0 dt) = Some timeout_text"
    and "steps (guarded_run (Returned (ss @ [\<lparr> stepNumber = n, line = 1, code = c,
                         state = \<lparr> st_error = Some timeout_text, st_stdout = None,
                                   st_waiting_for_input = False,
                                   st_detail_print = False, st_detail_output = None \<rparr> \<rparr>]))
                   exec_id created_at analysis code0 dt)
         = ss @ [\<lparr> stepNumber = n, line = 1, code = c,
                         state = \<lparr> st_error = Some timeout_text, st_stdout = None,
                                   st_waiting_for_input = False,
                                   st_detail_print = False, st_detail_output = None \<rparr> \<rparr>]"
proof -
  let ?e = "\<lparr> stepNumber = n, line = 1, code = c,
                         state = \<lparr> st_error = Some timeout_text, st_stdout = None,
                                   st_waiting_for_input = False,
                                   st_detail_print = False, st_detail_output = None \<rparr> \<rparr>"
  have he: "step_has_error ?e"
    using strip_nonblank [of "CHR ''C''" "''ode execution timed out''"]
    by (simp add: step_has_error_def timeout_text_def is_space_def)
  have fe: "find_error_message (ss @ [?e]) = Some timeout_text"
    using find_error_message_append_clean [OF clean, of "[?e]"] he by simp
  show "status (guarded_run (Returned (ss @ [?e])) exec_id created_at analysis code0 dt) = Error"
    using guarded_run_error [OF fe] by blast
  show "errorMessage (guarded_run (Returned (ss @ [?e])) exec_id created_at analysis code0 dt)
        = Some timeout_text"
    using guarded_run_error [OF fe] by blast
  show "steps (guarded_run (Returned (ss @ [?e])) exec_id created_at analysis code0 dt)
        = ss @ [?e]"
    by (rule guarded_run_steps)
qed

text \<open>
  C1, as stated, fails: when the wait for the simulator runs out of time the
  response has status \<open>error\<close>, not \<open>timeout\<close>; and so it has when the executor
  kills a guest that does not end.
\<close>

theorem timeout_status_counterexample:
  "response_status
     (run_code_guest ExecuteController_init (\<lambda>dt c i. WaitTimedOut) ''exec_1'' 0
        (\<lambda>c. (None :: unit option))
        \<lparr> req_code = ''x = 1'', req_dataType = Some ''stack'',
          req_inputValues = None, req_autoDetect = None \<rparr>)
   = Some Error
   \<and> hangs hanging_guest []
   \<and> response_status
     (run_code_guest ExecuteController_init
        (simulator_run plain_paths plain_env
           (guest_executors (\<lambda>c. hanging_guest) (\<lambda>c s. no_result)))
        ''exec_1'' 0 (\<lambda>c. (None :: unit option))
        \<lparr> req_code = hanging_source, req_dataType = Some ''stack'',
          req_inputValues = None, req_autoDetect = None \<rparr>)
   = Some Error"
  by code_simp

text \<open>
  C1, amended.  No response of \<open>run_code_guest\<close> has status \<open>timeout\<close>; a run that
  exceeds a timeout is reported with status \<open>error\<close>, the status of guest exceptions,
  and is told apart by its message only.  When the wait of the controller for the
  simulator runs out of time, the response carries no steps and the message
  \<open>Execution timeout - code took too long to execute\<close>.  When the executor kills a
  guest that is still running at its own timeout, and the simulator serves the
  request through the direct executor, the response carries the steps of the
  fallback, none with an error, followed by one error step, and its message is that
  of the step, \<open>Code execution timed out\<close>.
\<close>

theorem timeout_reported_as_error:
  "(req_dataType req = Some dt \<and> dt \<noteq> [] \<and> dt \<noteq> ''auto'' \<and> req_autoDetect req \<noteq> Some True
      \<and> is_supported dt
      \<and> simulate dt (strip (req_code req))
           (case req_inputValues req of None \<Rightarrow> [] | Some vs \<Rightarrow> vs) = WaitTimedOut
    \<longrightarrow> (\<exists>r. run_code_guest self simulate exec_id created_at analysis req = Inr r
           \<and> status r = Error
           \<and> errorMessage r = Some ''Execution timeout - code took too long to execute''
           \<and> steps r = [] \<and> totalSteps r = 0))
   \<and> (req_dataType req = Some dt \<and> dt \<noteq> ''auto'' \<and> req_autoDetect req \<noteq> Some True
      \<and> served_directly dt (strip (req_code req))
      \<and> hangs (guest_of (strip (req_code req)))
           (case req_inputValues req of None \<Rightarrow> [] | Some vs \<Rightarrow> vs)
      \<and> json_loads env ''Code execution timed out'' = None
    \<longrightarrow> (\<exists>r. run_code_guest self
                (simulator_run paths env (guest_executors guest_of plain))
                exec_id created_at analysis req = Inr r
           \<and> status r = Error
           \<and> errorMessage r = Some ''Code execution timed out''
           \<and> steps r \<noteq> []
           \<and> st_error (state (last (steps r))) = Some ''Code execution timed out''
           \<and> list_all no_err (butlast (steps r))
           \<and> totalSteps r = length (steps r)))
   \<and> response_status (run_code_guest self simulate exec_id created_at analysis req)
       \<noteq> Some Timeout"
proof (intro conjI)
  show "req_dataType req = Some dt \<and> dt \<noteq> [] \<and> dt \<noteq> ''auto'' \<and> req_autoDetect req \<noteq> Some True
      \<and> is_supported dt
      \<and> simulate dt (strip (req_code req))
           (case req_inputValues req of None \<Rightarrow> [] | Some vs \<Rightarrow> vs) = WaitTimedOut
    \<longrightarrow> (\<exists>r. run_code_guest self simulate exec_id created_at analysis req = Inr r
           \<and> status r = Error
           \<and> errorMessage r = Some ''Execution timeout - code took too long to execute''
           \<and> steps r = [] \<and> totalSteps r = 0)"
    by (auto simp: run_code_guest_def resolve_data_type_def no_explicit_type_def
        guarded_run_def Let_def execute_with_timeout_def create_error_response_def)
next
  show "req_dataType req = Some dt \<and> dt \<noteq> ''auto'' \<and> req_autoDetect req \<noteq> Some True
      \<and> served_directly dt (strip (req_code req))
      \<and> hangs (guest_of (strip (req_code req)))
           (case req_inputValues req of None \<Rightarrow> [] | Some vs \<Rightarrow> vs)
      \<and> json_loads env ''Code execution timed out'' = None
    \<longrightarrow> (\<exists>r. run_code_guest self
                (simulator_run paths env (guest_executors guest_of plain))
                exec_id created_at analysis req = Inr r
           \<and> status r = Error
           \<and> errorMessage r = Some ''Code execution timed out''
           \<and> steps r \<noteq> []
           \<and> st_error (state (last (steps r))) = Some ''Code execution timed out''
           \<and> list_all no_err (butlast (steps r))
           \<and> totalSteps r = length (steps r))"
  proof
    let ?code = "strip (req_code req)"
    let ?vals = "case req_inputValues req of None \<Rightarrow> [] | Some vs \<Rightarrow> vs"
    let ?ex = "guest_executors guest_of plain"
    assume h: "req_dataType req = Some dt \<and> dt \<noteq> ''auto'' \<and> req_autoDetect req \<noteq> Some True
      \<and> served_directly dt ?code \<and> hangs (guest_of ?code) ?vals
      \<and> json_loads env ''Code execution timed out'' = None"
    then have rd: "req_dataType req = Some dt" and na: "dt \<noteq> ''auto''"
      and nad: "req_autoDetect req \<noteq> Some True" and sd: "served_directly dt ?code"
      and hg: "hangs (guest_of ?code) ?vals"
      and nj: "json_loads env timeout_text = None"
      by (simp_all add: timeout_text_def)
    from served_directly_supported [OF sd] have sup: "is_supported dt" and ne: "dt \<noteq> []"
      by simp_all
    from served_directly_run [OF sd, of ?vals paths env ?ex]
    obtain iv t where iv: "(case iv of None \<Rightarrow> [] | Some vs \<Rightarrow> vs) = ?vals"
      and ft: "t \<in> set force_tracing_types"
      and run: "simulator_run paths env ?ex dt ?code ?vals
                = Returned (execute env ?ex ?code [] (Some t) iv)"
      by blast
    from hg have hg': "hangs (guest_of ?code) (case iv of None \<Rightarrow> [] | Some vs \<Rightarrow> vs)"
      unfolding iv .
    from execute_killed [where guest_of = guest_of and ?code0.0 = ?code and iv = iv
                            and t = t and env = env and plain = plain and stdin_data = "[]",
                          OF hg' ft nj]
    obtain ss where clean: "list_all no_err ss"
      and ex: "execute env ?ex ?code [] (Some t) iv
               = ss @ [\<lparr> stepNumber = 1 + int (length ss), line = 1, code = first_line ?code,
                         state = \<lparr> st_error = Some timeout_text, st_stdout = None,
                                   st_waiting_for_input = False,
                                   st_detail_print = False, st_detail_output = None \<rparr> \<rparr>]"
      by blast
    let ?r = "guarded_run (simulator_run paths env ?ex dt ?code ?vals) exec_id created_at
                (analysis ?code) ?code dt"
    have rg: "run_code_guest self (simulator_run paths env ?ex) exec_id created_at analysis req
              = Inr ?r"
      using rd na nad sup ne
      by (simp add: run_code_guest_def resolve_data_type_def no_explicit_type_def Let_def)
    note k = killed_steps_response [OF clean, of "1 + int (length ss)" "first_line ?code"
                exec_id created_at "analysis ?code" ?code dt]
    have "status ?r = Error" unfolding run ex by (rule k(1))
    moreover have "errorMessage ?r = Some ''Code execution timed out''"
      unfolding run ex using k(2) by (simp add: timeout_text_def)
    moreover have st: "steps ?r = ss @ [\<lparr> stepNumber = 1 + int (length ss), line = 1,
                         code = first_line ?code,
                         state = \<lparr> st_error = Some timeout_text, st_stdout = None,
                                   st_waiting_for_input = False,
                                   st_detail_print = False, st_detail_output = None \<rparr> \<rparr>]"
      unfolding run ex by (rule k(3))
    moreover have "totalSteps ?r = length (steps ?r)" by (rule guarded_run_totalSteps)
    ultimately
    have "status ?r = Error
           \<and> errorMessage ?r = Some ''Code execution timed out''
           \<and> steps ?r \<noteq> []
           \<and> st_error (state (last (steps ?r))) = Some ''Code execution timed out''
           \<and> list_all no_err (butlast (steps ?r))
           \<and> totalSteps ?r = length (steps ?r)"
      using clean by (simp add: timeout_text_def)
    with rg show "\<exists>r. run_code_guest self
                (simulator_run paths env (guest_executors guest_of plain))
                exec_id created_at analysis req = Inr r
           \<and> status r = Error
           \<and> errorMessage r = Some ''Code execution timed out''
           \<and> steps r \<noteq> []
           \<and> st_error (state (last (steps r))) = Some ''Code execution timed out''
           \<and> list_all no_err (butlast (steps r))
           \<and> totalSteps r = length (steps r)"
      by blast
  qed
next
  show "response_status (run_code_guest self simulate exec_id created_at analysis req)
       \<noteq> Some Timeout"
    by (simp add: response_status_def run_code_guest_def Let_def guarded_run_status
        split: sum.splits option.splits)
qed

theorem timeout_reported_as_error_witness:
  "is_supported ''stack''
   \<and> response_error
        (run_code_guest ExecuteController_init (\<lambda>dt c i. WaitTimedOut) ''exec_1'' 0
           (\<lambda>c. (None :: unit option))
           \<lparr> req_code = ''x = 1'', req_dataType = Some ''stack'',
             req_inputValues = None, req_autoDetect = None \<rparr>)
       = Some ''Execution timeout - code took too long to execute''
   \<and> served_directly ''stack'' (strip hanging_source)
   \<and> hangs hanging_guest []
   \<and> json_loads plain_env ''Code execution timed out'' = None
   \<and> response_status
        (run_code_guest ExecuteController_init
           (simulator_run plain_paths plain_env
              (guest_executors (\<lambda>c. hanging_guest) (\<lambda>c s. no_result)))
           ''exec_1'' 0 (\<lambda>c. (None :: unit option))
           \<lparr> req_code = hanging_source, req_dataType = Some ''stack'',
             req_inputValues = None, req_autoDetect = None \<rparr>) = Some Error
   \<and> response_error
        (run_code_guest ExecuteController_init
           (simulator_run plain_paths plain_env
              (guest_executors (\<lambda>c. hanging_guest) (\<lambda>c s. no_result)))
           ''exec_1'' 0 (\<lambda>c. (None :: unit option))
           \<lparr> req_code = hanging_source, req_dataType = Some ''stack'',
             req_inputValues = None, req_autoDetect = None \<rparr>)
       = Some ''Code execution timed out''"
proof -
  let ?req1 = "\<lparr> req_code = ''x = 1'', req_dataType = Some ''stack'',
             req_inputValues = None, req_autoDetect = None \<rparr>"
  let ?req2 = "\<lparr> req_code = hanging_source, req_dataType = Some ''stack'',
             req_inputValues = None, req_autoDetect = None \<rparr>"
  have a1: "is_supported ''stack''" by (rule is_supported_stack)
  have a2: "served_directly ''stack'' (strip hanging_source)" by code_simp
  have a3: "hangs hanging_guest []" by (simp add: hanging_guest_def)
  have a4: "json_loads plain_env ''Code execution timed out'' = None"
    by (simp add: plain_env_def)
  from timeout_reported_as_error
    [of ?req1 "''stack''" "\<lambda>dt c i. WaitTimedOut" ExecuteController_init "''exec_1''" 0
        "\<lambda>c. (None :: unit option)", THEN conjunct1] a1
  have w1: "response_error
        (run_code_guest ExecuteController_init (\<lambda>dt c i. WaitTimedOut) ''exec_1'' 0
           (\<lambda>c. (None :: unit option)) ?req1)
       = Some ''Execution timeout - code took too long to execute''"
    by (auto simp: response_error_def)
  from timeout_reported_as_error
    [where req = ?req2 and dt = "''stack''" and guest_of = "\<lambda>c. hanging_guest"
       and env = plain_env and self = ExecuteController_init and paths = plain_paths
       and plain = "\<lambda>c s. no_result" and exec_id = "''exec_1''" and created_at = 0
       and analysis = "\<lambda>c. (None :: unit option)", THEN conjunct2, THEN conjunct1]
    a2 a3 a4
  have w2: "response_status
        (run_code_guest ExecuteController_init
           (simulator_run plain_paths plain_env
              (guest_executors (\<lambda>c. hanging_guest) (\<lambda>c s. no_result)))
           ''exec_1'' 0 (\<lambda>c. (None :: unit option)) ?req2) = Some Error
     \<and> response_error
        (run_code_guest ExecuteController_init
           (simulator_run plain_paths plain_env
              (guest_executors (\<lambda>c. hanging_guest) (\<lambda>c s. no_result)))
           ''exec_1'' 0 (\<lambda>c. (None :: unit option)) ?req2)
       = Some ''Code execution timed out''"
    by (auto simp: response_error_def response_status_def)
  from a1 a2 a3 a4 w1 w2 show ?thesis by blast
qed

section \<open>Step numbering of the stack simulation\<close>

text \<open>
  C9.  The steps that the stack simulator makes with its operation parser are not
  numbered without a gap or repetition.  \<open>_handle_multiple_statements\<close> numbers the
  steps of the statements of one line \<open>step_number\<close>, \<open>step_number + 1\<close>, ..., but
  reports only that it handled the line, and the loop of \<open>execute_code\<close> then adds one
  to \<open>step_number\<close>, whatever the number of steps.  These steps are what
  \<open>execute_code\<close> returns when a later line raises an exception.  For
  \<open>two_pushes_source\<close>, a request that the stack simulator does not hand to the direct
  executor, the two pushes of line 3 are numbered 2 and 3, the assignment of line 4
  is numbered 3 again, and the call of line 5 raises \<open>TypeError\<close> on the number that
  was popped: the response has five steps, numbered 1, 2, 3, 3, 4.
\<close>

theorem step_numbers_repeat_in_stack_simulation:
  "\<not> served_directly ''stack'' two_pushes_source
   \<and> map stepNumber (steps two_pushes_response) = [1, 2, 3, 3, 4]
   \<and> map line (steps two_pushes_response) = [2, 3, 3, 4, 5]
   \<and> map code (steps two_pushes_response)
       = [''s = ArrayStack()'', ''s.push(1)'', ''s.push(2)'', ''x = s.pop()'',
          ''is_parentheses_matching(x)'']
   \<and> totalSteps two_pushes_response = 5
   \<and> status two_pushes_response = Error"
  by code_simp

section \<open>Properties of the behaviour classifier\<close>







lemma analyze_target_hints [simp]:
  "method_name_hints (analyze_target t v b) = method_name_hints b"
  by (induction t v b rule: analyze_target.induct) simp_all

lemma analyze_assignment_hints [simp]:
  "method_name_hints (analyze_assignment ts v b) = method_name_hints b"
  unfolding analyze_assignment_def by (induction ts arbitrary: b) simp_all

lemma analyze_call_hints [simp]:
  "method_name_hints (analyze_call e b) = method_name_hints b"
  by (induction e b rule: analyze_call.induct) (simp_all split: list.splits expr.splits)

lemma peek_of_slice_hints [simp]:
  "method_name_hints (peek_of_slice s b) = method_name_hints b"
  by (induction s b rule: peek_of_slice.induct) simp_all






text \<open>
  C2 on the method \<open>insertLast\<close>: its body creates a node, has a loop, assigns a
  \<open>next\<close> pointer and does not assign \<open>head\<close>; the classifier that runs tags it
  \<open>insert\<close>, from the word \<open>insert\<close> in its name, and not \<open>insert_last\<close>.  The
  replaced first definition gives \<open>insert_last\<close> on the same evidence, and so does
  the running one once the method is renamed \<open>zzz\<close>.
\<close>

theorem insert_last_decided_by_name:
  "(case analyze_statements insertLast_body (initial_behavior ''insertLast'' [''self'', ''data''])
    of Inl e \<Rightarrow> False
     | Inr b \<Rightarrow> creates_new_node b \<and> has_loop b \<and> modifies_next_pointers b
               \<and> \<not> modifies_head b
               \<and> classify_behavior_by_logic b = ''insert''
               \<and> classify_behavior_by_logic_replaced b = ''insert_last'')
   \<and> method_tag insertLast_method = Some ''insert''
   \<and> method_tag (FunctionDef ''zzz'' [''self'', ''data''] [] insertLast_body)
       = Some ''insert_last''"
  by code_simp

section \<open>Properties of the per-function complexity estimate\<close>

lemma check_call_loops [simp]:
  "c_loop_count (check_call fn f c) = c_loop_count c"
  by (cases f) simp_all


lemma enter_loop_count [simp]: "c_loop_count (enter_loop d c) = Suc (c_loop_count c)"
  by (simp add: enter_loop_def)











section \<open>Properties of the safe serializer\<close>
















end
